theory Spec2Isabelle
  imports Complex_Main "HOL-Library.Multiset"
begin

section \<open>Python values\<close>

text \<open>
  A Python float is a finite value or one of the three special values. \<open>int(x)\<close>
  truncates a finite float towards zero and raises on the special values.
\<close>

datatype pyfloat = Finite real | PosInf | NegInf | NaN

datatype exc =
    JSONDecodeError
  | AttributeError
  | ValueError
  | OverflowError
  | IntegrityError
  | DataError
  | OperationalError
  | InvalidRequestError
  | AMQPConnectionError
  | HTTPException nat string

definition py_int :: "pyfloat \<Rightarrow> exc + int" where
  "py_int x =
     (case x of
        Finite r \<Rightarrow> Inr (if 0 \<le> r then \<lfloor>r\<rfloor> else \<lceil>r\<rceil>)
      | PosInf \<Rightarrow> Inl OverflowError
      | NegInf \<Rightarrow> Inl OverflowError
      | NaN \<Rightarrow> Inl ValueError)"

text \<open>
  The result of \<open>json.loads\<close>: a JSON document as a Python value. An object is a
  dict, kept as an association list read with \<open>map_of\<close>; \<open>null\<close> is Python's
  \<open>None\<close>.
\<close>

datatype json =
    JNull
  | JBool bool
  | JInt int
  | JFloat pyfloat
  | JStr string
  | JArr "json list"
  | JObj "(string \<times> json) list"

text \<open>\<open>d.get(k)\<close>: the value under \<open>k\<close>, \<open>None\<close> when the key is missing.\<close>

definition dict_get :: "(string \<times> json) list \<Rightarrow> string \<Rightarrow> json" where
  "dict_get d k = (case map_of d k of None \<Rightarrow> JNull | Some v \<Rightarrow> v)"

text \<open>\<open>d.get(k, dflt)\<close>.\<close>

definition dict_get_default :: "(string \<times> json) list \<Rightarrow> string \<Rightarrow> json \<Rightarrow> json" where
  "dict_get_default d k dflt = (case map_of d k of None \<Rightarrow> dflt | Some v \<Rightarrow> v)"

text \<open>
  Decimal rendering of integers, for the f-strings that build a transaction reference.
\<close>

fun str_nat :: "nat \<Rightarrow> string" where
  "str_nat n =
     (if n < 10 then [char_of (48 + n)]
      else str_nat (n div 10) @ [char_of (48 + n mod 10)])"

declare str_nat.simps [simp del]

definition str_int :: "int \<Rightarrow> string" where
  "str_int i = (if i < 0 then CHR ''-'' # str_nat (nat (- i)) else str_nat (nat i))"

text \<open>
  \<open>str.upper()\<close> on the ASCII range: the letters \<open>a\<close> to \<open>z\<close> move to
  \<open>A\<close> to \<open>Z\<close>, every other byte stays. Strings are byte strings here; the case
  mapping of characters outside ASCII is not modelled.
\<close>

definition upper_char :: "char \<Rightarrow> char" where
  "upper_char c =
     (let n = (of_char c :: nat) in if 97 \<le> n \<and> n \<le> 122 then char_of (n - 32) else c)"

definition upper :: "string \<Rightarrow> string" where
  "upper s = map upper_char s"

section \<open>The payment row (models.py) and its serialised form (schemas.py)\<close>

text \<open>
  One row of the table \<open>payments\<close>. The primary key column \<open>id\<close> is named
  \<open>id_col\<close> here. Timestamps are readings of the clock in seconds. Column widths
  (\<open>String(64)\<close>, \<open>String(20)\<close>, \<open>String(128)\<close>, 32-bit \<open>Integer\<close>) are
  enforced by the database server and are left out; the \<open>nullable=False\<close>
  constraints are modelled at insertion.
\<close>

record payment =
  id_col :: int
  student_id :: string
  enrollment_id :: int
  amount :: pyfloat
  status :: string
  transaction_ref :: "string option"
  created_at :: nat
  updated_at :: "nat option"

record payment_out =
  out_id :: int
  out_student_id :: string
  out_enrollment_id :: int
  out_amount :: pyfloat
  out_status :: string
  out_transaction_ref :: "string option"
  out_created_at :: "nat option"

definition from_orm :: "payment \<Rightarrow> payment_out" where
  "from_orm p =
     \<lparr> out_id = id_col p, out_student_id = student_id p,
       out_enrollment_id = enrollment_id p, out_amount = amount p,
       out_status = status p, out_transaction_ref = transaction_ref p,
       out_created_at = Some (created_at p) \<rparr>"

section \<open>The world: store, bus, clock and the trace of effects\<close>

datatype effect =
    Log string
  | Commit
  | ExchangeDeclare string string bool
  | Published string json
  | QueueDeclare string bool bool
  | QueueBind string string string
  | Qos nat
  | Consume string bool
  | Ack nat
  | Nack nat bool

text \<open>
  \<open>payments\<close> is the table in insertion order, \<open>next_id\<close> the primary key
  sequence, \<open>clock\<close> the time in seconds. \<open>db_up\<close> and \<open>bus_up\<close> say whether
  the database and the message broker answer. They do not change within one operation,
  with one exception: the two operations that insert a row take an argument \<open>lost\<close>,
  and when it holds the database is lost after their commit and before their refresh.
  \<open>trace\<close> records, in order, what the code did to the outside: log lines (their
  constant text only), commits, and channel operations. \<open>QueueDeclare q d x\<close> is
  \<open>queue_declare(queue=q, durable=d, exclusive=x)\<close>, \<open>Nack t r\<close> is
  \<open>basic_nack(delivery_tag=t, requeue=r)\<close>.
\<close>

record world =
  payments :: "payment list"
  next_id :: int
  clock :: nat
  db_up :: bool
  bus_up :: bool
  trace :: "effect list"

definition emit :: "effect \<Rightarrow> world \<Rightarrow> world" where
  "emit e w = w\<lparr>trace := trace w @ [e]\<rparr>"

definition sleep :: "nat \<Rightarrow> world \<Rightarrow> world" where
  "sleep n w = w\<lparr>clock := clock w + n\<rparr>"

definition EXCHANGE :: string where
  "EXCHANGE = ''ums_events''"

subsection \<open>The session: query, insert, update, refresh\<close>

text \<open>The first row with a given \<open>id\<close>, if there is one.\<close>

definition stored :: "int \<Rightarrow> world \<Rightarrow> payment option" where
  "stored payment_id w = find (\<lambda>p. id_col p = payment_id) (payments w)"

text \<open>\<open>db.query(Payment).filter(Payment.id == payment_id).first()\<close>\<close>

definition query_first :: "int \<Rightarrow> world \<Rightarrow> exc + payment option" where
  "query_first payment_id w =
     (if db_up w then Inr (stored payment_id w) else Inl OperationalError)"

text \<open>
  The database driver and server are not code of this repository: what an INSERT stores
  for the Python values bound to \<open>student_id\<close>, \<open>enrollment_id\<close> and \<open>amount\<close>
  (a server casts many values to the column's type), which error it raises when it
  refuses them, and whether a refused INSERT has used up a value of the \<open>id\<close>
  sequence, is a parameter of the model.
\<close>

record store =
  insert_values :: "json \<Rightarrow> json \<Rightarrow> json \<Rightarrow> exc + string \<times> int \<times> pyfloat"
  burns_id :: "exc \<Rightarrow> bool"

text \<open>
  What models.py fixes about the three columns. \<open>Integer\<close> holds the 32-bit integers.
  \<open>String(64)\<close> holds a text of at most 64 characters; strings are byte strings here,
  and \<open>varchar64\<close> are the ASCII texts without NUL of at most 64 characters, which
  fit in every database encoding. \<open>Float\<close> is a double: it holds a Python float as it
  is and an integer exactly when the integer is at most \<open>2^53\<close> in absolute value.
\<close>

definition int32 :: "int \<Rightarrow> bool" where
  "int32 n = (- 2147483648 \<le> n \<and> n \<le> 2147483647)"

definition varchar64 :: "string \<Rightarrow> bool" where
  "varchar64 s =
     (length s \<le> 64 \<and> list_all (\<lambda>ch. 0 < (of_char ch :: nat) \<and> (of_char ch :: nat) < 128) s)"

definition exact_double :: "int \<Rightarrow> bool" where
  "exact_double i = (- 9007199254740992 \<le> i \<and> i \<le> 9007199254740992)"

definition float_value :: "json \<Rightarrow> pyfloat option" where
  "float_value v =
     (case v of
        JFloat x \<Rightarrow> Some x
      | JInt i \<Rightarrow> if exact_double i then Some (Finite (of_int i)) else None
      | _ \<Rightarrow> None)"

text \<open>
  A store agrees with models.py when it stores values of the columns' types within the
  columns' bounds as they are, and refuses a \<open>None\<close> in any of the three columns
  (\<open>nullable=False\<close>). Nothing is said of any other value.
\<close>

definition store_ok :: "store \<Rightarrow> bool" where
  "store_ok c =
     ((\<forall>s n v a. varchar64 s \<and> int32 n \<and> float_value v = Some a \<longrightarrow>
          insert_values c (JStr s) (JInt n) v = Inr (s, n, a))
      \<and> (\<forall>sid eid v. sid = JNull \<or> eid = JNull \<or> v = JNull \<longrightarrow>
          (\<exists>e. insert_values c sid eid v = Inl e)))"

text \<open>
  A sample store for the closed instances below, the least one that agrees with
  models.py: it takes exactly the values \<open>store_ok\<close> speaks of and refuses every other
  value. PostgreSQL takes more (it stores the integer 123 as the text \<open>123\<close>); the
  theorems are about every store that satisfies \<open>store_ok\<close>.
\<close>

definition strict_values :: "json \<Rightarrow> json \<Rightarrow> json \<Rightarrow> exc + string \<times> int \<times> pyfloat" where
  "strict_values sid eid v =
     (if sid = JNull \<or> eid = JNull \<or> v = JNull then Inl IntegrityError
      else case sid of
        JStr s \<Rightarrow>
          (case eid of
             JInt n \<Rightarrow>
               (case float_value v of
                  Some a \<Rightarrow> if varchar64 s \<and> int32 n then Inr (s, n, a) else Inl DataError
                | None \<Rightarrow> Inl DataError)
           | _ \<Rightarrow> Inl DataError)
      | _ \<Rightarrow> Inl DataError)"

definition strict_store :: store where
  "strict_store = \<lparr> insert_values = strict_values, burns_id = (\<lambda>e. e = IntegrityError) \<rparr>"

text \<open>
  \<open>models.Payment(...)\<close>, \<open>db.add(payment)\<close>, \<open>db.commit()\<close>: one INSERT. The store
  assigns \<open>id\<close> from the sequence and \<open>created_at\<close> from the clock
  (\<open>server_default=func.now()\<close>); \<open>transaction_ref\<close> and \<open>updated_at\<close> start as
  NULL. An INSERT that the store refuses commits no row; it may have used up a value
  of the sequence.
\<close>

definition insert_commit ::
  "store \<Rightarrow> json \<Rightarrow> json \<Rightarrow> json \<Rightarrow> string \<Rightarrow> world \<Rightarrow> (exc + payment) \<times> world" where
  "insert_commit c sid eid amt st w =
     (if \<not> db_up w then (Inl OperationalError, w)
      else case insert_values c sid eid amt of
        Inl e \<Rightarrow> (Inl e, if burns_id c e then w\<lparr>next_id := next_id w + 1\<rparr> else w)
      | Inr (s, n, a) \<Rightarrow>
          (let p = \<lparr> id_col = next_id w, student_id = s, enrollment_id = n, amount = a,
                     status = st, transaction_ref = None, created_at = clock w,
                     updated_at = None \<rparr>
           in (Inr p, emit Commit (w\<lparr>payments := payments w @ [p],
                                     next_id := next_id w + 1\<rparr>))))"

text \<open>
  Flushing a loaded row whose attributes were assigned: the unit of work emits
  \<open>UPDATE payments SET ... WHERE id = :id\<close> when an assigned value differs from the
  loaded one, and \<open>onupdate=func.now()\<close> then sets \<open>updated_at\<close>; with no net
  change no statement is sent.
\<close>

definition flush_update :: "payment \<Rightarrow> (payment \<Rightarrow> payment) \<Rightarrow> world \<Rightarrow> world" where
  "flush_update loaded assign w =
     (if assign loaded = loaded then w
      else w\<lparr>payments :=
               map (\<lambda>p. if id_col p = id_col loaded
                         then (assign p)\<lparr>updated_at := Some (clock w)\<rparr> else p)
                   (payments w)\<rparr>)"

text \<open>\<open>db.commit()\<close> after the assignments.\<close>

definition commit_update :: "payment \<Rightarrow> (payment \<Rightarrow> payment) \<Rightarrow> world \<Rightarrow> exc + world" where
  "commit_update loaded assign w =
     (if \<not> db_up w then Inl OperationalError
      else Inr (emit Commit (flush_update loaded assign w)))"

text \<open>\<open>db.refresh(payment)\<close>: the row is read again by its primary key.\<close>

definition refresh :: "payment \<Rightarrow> world \<Rightarrow> exc + payment" where
  "refresh loaded w =
     (case query_first (id_col loaded) w of
        Inl e \<Rightarrow> Inl e
      | Inr None \<Rightarrow> Inl InvalidRequestError
      | Inr (Some p) \<Rightarrow> Inr p)"

section \<open>events.py\<close>

text \<open>
  The body of every outbound event:
  \<open>{"type": t, "payload": {"payment_id": .., "enrollment_id": .., "student_id": ..}}\<close>.
  \<open>json.dumps\<close> is not modelled: a published body is the JSON value itself.
\<close>

definition outbound_event :: "string \<Rightarrow> int \<Rightarrow> int \<Rightarrow> string \<Rightarrow> json" where
  "outbound_event ty payment_id enrollment student =
     JObj [(''type'', JStr ty),
           (''payload'', JObj [(''payment_id'', JInt payment_id),
                               (''enrollment_id'', JInt enrollment),
                               (''student_id'', JStr student)])]"

text \<open>
  The database between the commit and the refresh of an insert: gone when \<open>lost\<close>
  holds.
\<close>

definition lose_db :: "bool \<Rightarrow> world \<Rightarrow> world" where
  "lose_db lost w = (if lost then w\<lparr>db_up := False\<rparr> else w)"

text \<open>
  \<open>db.add(payment)\<close>, \<open>db.commit()\<close>, \<open>db.refresh(payment)\<close>, the three statements
  that \<open>_process_registration_event\<close> and \<open>initiate_payment\<close> share. A refresh that
  raises leaves the committed row in the table.
\<close>

definition add_commit_refresh ::
  "store \<Rightarrow> bool \<Rightarrow> json \<Rightarrow> json \<Rightarrow> json \<Rightarrow> string \<Rightarrow> world \<Rightarrow> (exc + payment) \<times> world" where
  "add_commit_refresh c lost sid eid amt st w =
     (case insert_commit c sid eid amt st w of
        (Inl e, w1) \<Rightarrow> (Inl e, w1)
      | (Inr payment, w1) \<Rightarrow>
          (case refresh payment (lose_db lost w1) of
             Inl e \<Rightarrow> (Inl e, lose_db lost w1)
           | Inr payment' \<Rightarrow> (Inr payment', lose_db lost w1)))"

text \<open>
  \<open>publish_event\<close>: the \<open>try\<close> block connects, declares the durable topic exchange
  and publishes; the broker URL is configuration and whether the broker answers is
  \<open>bus_up\<close>. The \<open>except Exception\<close> branch prints and returns.
\<close>

definition publish_attempt :: "string \<Rightarrow> json \<Rightarrow> world \<Rightarrow> exc + world" where
  "publish_attempt routing_key event w =
     (if bus_up w
      then Inr (emit (Published routing_key event)
                  (emit (ExchangeDeclare EXCHANGE ''topic'' True) w))
      else Inl AMQPConnectionError)"

definition publish_event :: "string \<Rightarrow> json \<Rightarrow> world \<Rightarrow> world" where
  "publish_event routing_key event w =
     (case publish_attempt routing_key event w of
        Inr w' \<Rightarrow> w'
      | Inl e \<Rightarrow> emit (Log ''Error publishing event:'') w)"

text \<open>\<open>f"tx-{payment_id}-{int(time.time())}"\<close>\<close>

definition tx_ref :: "int \<Rightarrow> nat \<Rightarrow> string" where
  "tx_ref payment_id now = ''tx-'' @ str_int payment_id @ ''-'' @ str_nat now"

text \<open>
  \<open>process_payment_and_publish\<close>, the inside of its outer \<open>try\<close>. The function
  receives \<open>student_id\<close>, \<open>enrollment_id\<close> and \<open>amount\<close> as arguments
  (\<open>student\<close>, \<open>enrollment\<close> and \<open>amt\<close> here, the column names being taken by
  the row's fields) and decides from the argument \<open>amt\<close>; the event carries the
  arguments and the refreshed row's \<open>id\<close>.
\<close>

definition process_payment_try ::
  "int \<Rightarrow> string \<Rightarrow> int \<Rightarrow> pyfloat \<Rightarrow> world \<Rightarrow> (exc + unit) \<times> world" where
  "process_payment_try payment_id student enrollment amt w0 =
     (let w = sleep 1 w0 in
      case py_int amt of
        Inl e \<Rightarrow> (Inl e, w)
      | Inr n \<Rightarrow>
         (let success = (n mod 2 = 0) in
          case query_first payment_id w of
            Inl e \<Rightarrow> (Inl e, w)
          | Inr None \<Rightarrow>
              (Inr (), emit (Log ''Payment not found in process_payment_and_publish:'') w)
          | Inr (Some payment) \<Rightarrow>
              if success then
                (case commit_update payment
                        (\<lambda>p. p\<lparr>status := ''SUCCESS'',
                                transaction_ref := Some (tx_ref payment_id (clock w))\<rparr>) w of
                   Inl e \<Rightarrow> (Inl e, w)
                 | Inr w1 \<Rightarrow>
                    (case refresh payment w1 of
                       Inl e \<Rightarrow> (Inl e, w1)
                     | Inr payment' \<Rightarrow>
                        (let event = outbound_event ''PaymentConfirmed'' (id_col payment')
                                       enrollment student;
                             w2 = publish_event ''payment.events.confirmed'' event w1
                         in (Inr (), emit (Log ''Payment SUCCESS, published PaymentConfirmed.'') w2))))
              else
                (case commit_update payment (\<lambda>p. p\<lparr>status := ''FAILED''\<rparr>) w of
                   Inl e \<Rightarrow> (Inl e, w)
                 | Inr w1 \<Rightarrow>
                    (case refresh payment w1 of
                       Inl e \<Rightarrow> (Inl e, w1)
                     | Inr payment' \<Rightarrow>
                        (let event = outbound_event ''PaymentFailed'' (id_col payment')
                                       enrollment student;
                             w2 = publish_event ''payment.events.failed'' event w1
                         in (Inr (), emit (Log ''Payment FAILED, published PaymentFailed.'') w2))))))"

text \<open>The outer \<open>except Exception\<close> prints; nothing reaches the caller.\<close>

definition process_payment_and_publish ::
  "int \<Rightarrow> string \<Rightarrow> int \<Rightarrow> pyfloat \<Rightarrow> world \<Rightarrow> world" where
  "process_payment_and_publish payment_id student enrollment amt w =
     (case process_payment_try payment_id student enrollment amt w of
        (Inr u, w') \<Rightarrow> w'
      | (Inl e, w') \<Rightarrow> emit (Log ''Error in process_payment_and_publish:'') w')"

text \<open>
  \<open>_process_registration_event(body, db)\<close>. \<open>body.get\<close> and \<open>payload.get\<close> raise
  \<open>AttributeError\<close> on a value that is not a dict. After the commit the row is
  refreshed; \<open>c\<close> is the store and \<open>lost\<close> says whether the database is lost in
  between.
\<close>

definition process_registration_event ::
  "store \<Rightarrow> bool \<Rightarrow> json \<Rightarrow> world \<Rightarrow> (exc + unit) \<times> world" where
  "process_registration_event c lost body w =
     (case body of
        JObj b \<Rightarrow>
          (case dict_get_default b ''payload'' (JObj []) of
             JObj payload \<Rightarrow>
               (let enrollment = dict_get payload ''enrollment_id'';
                    student = dict_get payload ''student_id'';
                    amt = dict_get_default payload ''amount'' (JFloat (Finite 0))
                in case add_commit_refresh c lost student enrollment amt ''PENDING'' w of
                     (Inl e, w1) \<Rightarrow> (Inl e, w1)
                   | (Inr payment, w1) \<Rightarrow>
                       (Inr (), emit (Log ''Created PENDING payment'') w1))
           | _ \<Rightarrow> (Inl AttributeError, w))
      | _ \<Rightarrow> (Inl AttributeError, w))"

text \<open>
  The consumer's \<open>callback(ch, method, properties, body)\<close>. A message body is
  \<open>None\<close> when its bytes are not a JSON document (\<open>json.loads\<close> raises), else
  the parsed value. \<open>basic_ack\<close> and \<open>basic_nack\<close> raise when the broker is gone.
\<close>

definition json_loads :: "json option \<Rightarrow> exc + json" where
  "json_loads body = (case body of None \<Rightarrow> Inl JSONDecodeError | Some v \<Rightarrow> Inr v)"

definition basic_ack :: "nat \<Rightarrow> world \<Rightarrow> (exc + unit) \<times> world" where
  "basic_ack delivery_tag w =
     (if bus_up w then (Inr (), emit (Ack delivery_tag) w) else (Inl AMQPConnectionError, w))"

definition basic_nack :: "nat \<Rightarrow> bool \<Rightarrow> world \<Rightarrow> (exc + unit) \<times> world" where
  "basic_nack delivery_tag requeue w =
     (if bus_up w then (Inr (), emit (Nack delivery_tag requeue) w)
      else (Inl AMQPConnectionError, w))"

text \<open>The statements of the callback's \<open>try\<close> block up to the acknowledgement.\<close>

definition callback_process ::
  "store \<Rightarrow> bool \<Rightarrow> json option \<Rightarrow> world \<Rightarrow> (exc + unit) \<times> world" where
  "callback_process c lost body w =
     (case json_loads body of
        Inl e \<Rightarrow> (Inl e, w)
      | Inr payload \<Rightarrow>
          process_registration_event c lost payload
            (emit (Log ''Payment consumer received message:'') w))"

definition callback :: "store \<Rightarrow> bool \<Rightarrow> nat \<Rightarrow> json option \<Rightarrow> world \<Rightarrow> world" where
  "callback c lost delivery_tag body w =
     (case (case callback_process c lost body w of
              (Inl e, w1) \<Rightarrow> (Inl e, w1)
            | (Inr u, w1) \<Rightarrow>
                (case basic_ack delivery_tag w1 of
                   (Inl e, w2) \<Rightarrow> (Inl e, w2)
                 | (Inr u', w2) \<Rightarrow> (Inr (), emit (Log ''Message processed and acked:'') w2))) of
        (Inr u, w') \<Rightarrow> w'
      | (Inl e, w') \<Rightarrow>
          (case basic_nack delivery_tag False (emit (Log ''Error processing message:'') w') of
             (Inr u, w'') \<Rightarrow> w''
           | (Inl e', w'') \<Rightarrow> w''))"

text \<open>
  One pass of the \<open>while True\<close> loop of \<open>_consumer_runloop\<close>, from the connection to
  \<open>basic_consume\<close>; \<open>start_consuming\<close> then hands each delivery to \<open>callback\<close>, and
  a failure sends the loop through its backoff into the next pass, which starts with these
  same statements. \<open>server_name\<close> is the name the broker gives an anonymous queue
  (\<open>q.method.queue\<close>). \<open>queue_declare(queue="", exclusive=True)\<close> leaves \<open>durable\<close>
  at the library's default, \<open>False\<close>.
\<close>

definition consumer_bind :: "string \<Rightarrow> string \<Rightarrow> world \<Rightarrow> (exc + string) \<times> world" where
  "consumer_bind queue_name server_name w =
     (if \<not> bus_up w then (Inl AMQPConnectionError, w)
      else
        (let w1 = emit (ExchangeDeclare EXCHANGE ''topic'' True) w;
             (actual_queue, w2) =
               (if queue_name \<noteq> []
                then (queue_name, emit (QueueDeclare queue_name False False) w1)
                else (server_name, emit (QueueDeclare [] False True) w1));
             w3 = emit (QueueBind EXCHANGE actual_queue ''enrollment.events.#'') w2;
             w4 = emit (Log ''Payment consumer bound queue'') w3;
             w5 = emit (Qos 1) w4;
             w6 = emit (Consume actual_queue False) w5
         in (Inr actual_queue, emit (Log ''Payment consumer starting to consume on queue:'') w6)))"

section \<open>main.py\<close>

text \<open>
  The arguments a background task was scheduled with:
  \<open>(payment.id, payment.student_id, payment.enrollment_id, payment.amount)\<close>.
\<close>

type_synonym task = "int \<times> string \<times> int \<times> pyfloat"

definition run_task :: "task \<Rightarrow> world \<Rightarrow> world" where
  "run_task t w =
     (case t of (payment_id, student, enrollment, amt) \<Rightarrow>
        process_payment_and_publish payment_id student enrollment amt w)"

text \<open>
  \<open>initiate_payment\<close>: the validated \<open>PaymentCreate\<close> is its three fields, a
  \<open>str\<close>, an \<open>int\<close> and a \<open>float\<close>. The response is built from the refreshed row
  and returned together with the task handed to \<open>background_tasks\<close>, which runs after
  the response.
\<close>

definition initiate_payment ::
  "store \<Rightarrow> bool \<Rightarrow> string \<Rightarrow> int \<Rightarrow> pyfloat \<Rightarrow> world
     \<Rightarrow> (exc + payment_out \<times> task) \<times> world" where
  "initiate_payment c lost student enrollment amt w =
     (case add_commit_refresh c lost (JStr student) (JInt enrollment) (JFloat amt)
             ''PENDING'' w of
        (Inl e, w1) \<Rightarrow> (Inl e, w1)
      | (Inr payment, w1) \<Rightarrow>
          (Inr (from_orm payment,
                (id_col payment, student_id payment, enrollment_id payment, amount payment)),
           emit (Log ''Created payment status=PENDING'') w1))"

definition get_payment :: "int \<Rightarrow> world \<Rightarrow> exc + payment_out" where
  "get_payment payment_id w =
     (case query_first payment_id w of
        Inl e \<Rightarrow> Inl e
      | Inr None \<Rightarrow> Inl (HTTPException 404 ''Payment not found'')
      | Inr (Some payment) \<Rightarrow> Inr (from_orm payment))"

definition refund_payment :: "int \<Rightarrow> world \<Rightarrow> (exc + payment_out) \<times> world" where
  "refund_payment payment_id w =
     (case query_first payment_id w of
        Inl e \<Rightarrow> (Inl e, w)
      | Inr None \<Rightarrow> (Inl (HTTPException 404 ''Payment not found''), w)
      | Inr (Some payment) \<Rightarrow>
          (case commit_update payment (\<lambda>p. p\<lparr>status := ''REFUNDED''\<rparr>) w of
             Inl e \<Rightarrow> (Inl e, w)
           | Inr w1 \<Rightarrow>
              (case refresh payment w1 of
                 Inl e \<Rightarrow> (Inl e, w1)
               | Inr payment' \<Rightarrow>
                  (let event = outbound_event ''PaymentRefunded'' (id_col payment')
                                 (enrollment_id payment') (student_id payment');
                       w2 = publish_event ''payment.events.refund'' event w1
                   in (Inr (from_orm payment'), emit (Log ''Refunded payment'') w2)))))"

text \<open>\<open>f"tx-manual-{payment_id}-{int(time.time())}"\<close>\<close>

definition tx_manual_ref :: "int \<Rightarrow> nat \<Rightarrow> string" where
  "tx_manual_ref payment_id now = ''tx-manual-'' @ str_int payment_id @ ''-'' @ str_nat now"

definition approve_payment :: "int \<Rightarrow> world \<Rightarrow> (exc + payment_out) \<times> world" where
  "approve_payment payment_id w =
     (case query_first payment_id w of
        Inl e \<Rightarrow> (Inl e, w)
      | Inr None \<Rightarrow> (Inl (HTTPException 404 ''Payment not found''), w)
      | Inr (Some payment) \<Rightarrow>
          (case commit_update payment
                  (\<lambda>p. p\<lparr>status := ''SUCCESS'',
                          transaction_ref := Some (tx_manual_ref payment_id (clock w))\<rparr>) w of
             Inl e \<Rightarrow> (Inl e, w)
           | Inr w1 \<Rightarrow>
              (case refresh payment w1 of
                 Inl e \<Rightarrow> (Inl e, w1)
               | Inr payment' \<Rightarrow>
                  (let event = outbound_event ''PaymentConfirmed'' (id_col payment')
                                 (enrollment_id payment') (student_id payment');
                       w2 = publish_event ''payment.events.confirmed'' event w1
                   in (Inr (from_orm payment'),
                       emit (Log ''Approved payment and published PaymentConfirmed'') w2)))))"

text \<open>
  \<open>list_payments\<close>. \<open>if status:\<close> and \<open>if student_id:\<close> are Python truthiness: a
  filter that is \<open>None\<close> or the empty string is not applied (\<open>filter_status\<close> and
  \<open>filter_student\<close> are the two \<open>if\<close> statements). \<open>order_by(created_at.desc())\<close>
  is a sort on the negated timestamp; the order the store gives rows of equal
  \<open>created_at\<close> is not fixed by the query, and the stable sort here is one such order.
\<close>

definition filter_status :: "string option \<Rightarrow> payment list \<Rightarrow> payment list" where
  "filter_status status_q q =
     (case status_q of
        None \<Rightarrow> q
      | Some s \<Rightarrow> if s = [] then q else filter (\<lambda>p. status p = upper s) q)"

definition filter_student :: "string option \<Rightarrow> payment list \<Rightarrow> payment list" where
  "filter_student student_q q =
     (case student_q of
        None \<Rightarrow> q
      | Some s \<Rightarrow> if s = [] then q else filter (\<lambda>p. student_id p = s) q)"

definition list_payments ::
  "string option \<Rightarrow> string option \<Rightarrow> world \<Rightarrow> exc + payment_out list" where
  "list_payments status_q student_q w =
     (if \<not> db_up w then Inl OperationalError
      else
        (let q = filter_student student_q (filter_status status_q (payments w));
             results = sort_key (\<lambda>p. - int (created_at p)) q
         in Inr (map from_orm results)))"

section \<open>Notions used in the statements\<close>

text \<open>
  The row that a flush leaves for the loaded row \<open>p\<close> after the assignments \<open>f\<close>,
  at time \<open>now\<close>.
\<close>

definition flushed :: "payment \<Rightarrow> (payment \<Rightarrow> payment) \<Rightarrow> nat \<Rightarrow> payment" where
  "flushed p f now = (if f p = p then p else (f p)\<lparr>updated_at := Some now\<rparr>)"

text \<open>The five fields of a row that are fixed at creation.\<close>

definition frame :: "payment \<Rightarrow> int \<times> string \<times> int \<times> pyfloat \<times> nat" where
  "frame p = (id_col p, student_id p, enrollment_id p, amount p, created_at p)"

text \<open>The messages put on the exchange, in order: routing key and body.\<close>

fun published :: "effect list \<Rightarrow> (string \<times> json) list" where
  "published [] = []"
| "published (Published rk ev # es) = (rk, ev) # published es"
| "published (e # es) = published es"

text \<open>
  What one call of \<open>publish_event\<close> adds to the trace: the exchange declaration and
  the message when the broker is up, the error line when it is not.
\<close>

definition publish_effects :: "string \<Rightarrow> json \<Rightarrow> bool \<Rightarrow> effect list" where
  "publish_effects rk ev up =
     (if up then [ExchangeDeclare EXCHANGE ''topic'' True, Published rk ev]
      else [Log ''Error publishing event:''])"

text \<open>A sample store: one pending payment of 100, database and broker up.\<close>

definition P1 :: payment where
  "P1 = \<lparr> id_col = 1, student_id = ''S1'', enrollment_id = 42, amount = Finite 100,
          status = ''PENDING'', transaction_ref = None, created_at = 0, updated_at = None \<rparr>"

definition W1 :: world where
  "W1 = \<lparr> payments = [P1], next_id = 2, clock = 5, db_up = True, bus_up = True, trace = [] \<rparr>"

text \<open>The same store with the broker down.\<close>

definition W2 :: world where
  "W2 = \<lparr> payments = [P1], next_id = 2, clock = 5, db_up = True, bus_up = False, trace = [] \<rparr>"

text \<open>
  An empty store, and the worlds reached from it by creating a payment of 101 and
  approving it before its background task has run.
\<close>

definition W0 :: world where
  "W0 = \<lparr> payments = [], next_id = 1, clock = 0, db_up = True, bus_up = True, trace = [] \<rparr>"

definition W_odd_created :: world where
  "W_odd_created = snd (initiate_payment strict_store False ''S1'' 42 (Finite 101) W0)"

definition W_odd_approved :: world where
  "W_odd_approved = snd (approve_payment 1 W_odd_created)"

text \<open>
  The worlds reached from the empty store by creating a payment of 100 and running its
  background task.
\<close>

definition W_even_created :: world where
  "W_even_created = snd (initiate_payment strict_store False ''S1'' 42 (Finite 100) W0)"

definition W_even_processed :: world where
  "W_even_processed = process_payment_and_publish 1 ''S1'' 42 (Finite 100) W_even_created"

text \<open>
  How one operation may change the \<open>transaction_ref\<close> of a row: a reference that is
  set stays set, and a reference changes only in a row whose new status is \<open>SUCCESS\<close>.
\<close>

definition ref_step :: "payment \<Rightarrow> payment \<Rightarrow> bool" where
  "ref_step q q' =
     ((transaction_ref q \<noteq> None \<longrightarrow> transaction_ref q' \<noteq> None)
      \<and> (transaction_ref q' \<noteq> transaction_ref q \<longrightarrow> status q' = ''SUCCESS''))"

text \<open>
  The amount the \<open>Float\<close> column holds for a payload: that of
  \<open>payload.get("amount", 0.0)\<close>, when this is a number the column holds exactly.
\<close>

definition payload_amount :: "(string \<times> json) list \<Rightarrow> pyfloat option" where
  "payload_amount payload = float_value (dict_get_default payload ''amount'' (JFloat (Finite 0)))"

text \<open>The row an INSERT of a pending payment creates in the world \<open>w\<close>.\<close>

definition pending_payment :: "string \<Rightarrow> int \<Rightarrow> pyfloat \<Rightarrow> world \<Rightarrow> payment" where
  "pending_payment s n a w =
     \<lparr> id_col = next_id w, student_id = s, enrollment_id = n, amount = a,
       status = ''PENDING'', transaction_ref = None, created_at = clock w,
       updated_at = None \<rparr>"

text \<open>
  Two inbound events: one with the two required fields and no amount, one whose payload
  lacks \<open>enrollment_id\<close>.
\<close>

definition E1 :: "(string \<times> json) list" where
  "E1 = [(''type'', JStr ''RegistrationPendingPayment''),
         (''payload'', JObj [(''enrollment_id'', JInt 7), (''student_id'', JStr ''S2'')])]"


text \<open>
  Every stored status is one of the four values the code writes.
\<close>

definition status_ok :: "world \<Rightarrow> bool" where
  "status_ok w =
     list_all (\<lambda>p. status p \<in> set [''PENDING'', ''SUCCESS'', ''FAILED'', ''REFUNDED''])
       (payments w)"

text \<open>
  The filters of the listing as the amended claim C7 reads them: a filter that is absent
  or empty lets every row pass; a status filter compares without regard to case, a
  student filter compares for equality.
\<close>

definition status_matches :: "string option \<Rightarrow> payment \<Rightarrow> bool" where
  "status_matches status_q p =
     (case status_q of None \<Rightarrow> True | Some s \<Rightarrow> s = [] \<or> upper s = upper (status p))"

definition student_matches :: "string option \<Rightarrow> payment \<Rightarrow> bool" where
  "student_matches student_q p =
     (case student_q of None \<Rightarrow> True | Some s \<Rightarrow> s = [] \<or> student_id p = s)"

text \<open>A store with three payments created at different times.\<close>

definition W3 :: world where
  "W3 = \<lparr> payments =
            [\<lparr> id_col = 1, student_id = ''S1'', enrollment_id = 42, amount = Finite 100,
                status = ''SUCCESS'', transaction_ref = Some ''tx-1-11'', created_at = 10,
                updated_at = Some 11 \<rparr>,
             \<lparr> id_col = 2, student_id = ''S2'', enrollment_id = 43, amount = Finite 7,
                status = ''PENDING'', transaction_ref = None, created_at = 20,
                updated_at = None \<rparr>,
             \<lparr> id_col = 3, student_id = ''S1'', enrollment_id = 44, amount = Finite 8,
                status = ''SUCCESS'', transaction_ref = Some ''tx-3-31'', created_at = 30,
                updated_at = Some 31 \<rparr>],
          next_id = 4, clock = 40, db_up = True, bus_up = True, trace = [] \<rparr>"

section \<open>Basic facts about the world\<close>

lemma emit_fields [simp]:
  "payments (emit e w) = payments w" "next_id (emit e w) = next_id w"
  "clock (emit e w) = clock w" "db_up (emit e w) = db_up w" "bus_up (emit e w) = bus_up w"
  "trace (emit e w) = trace w @ [e]"
  by (simp_all add: emit_def)

lemma sleep_fields [simp]:
  "payments (sleep n w) = payments w" "next_id (sleep n w) = next_id w"
  "clock (sleep n w) = clock w + n" "db_up (sleep n w) = db_up w"
  "bus_up (sleep n w) = bus_up w" "trace (sleep n w) = trace w"
  by (simp_all add: sleep_def)

lemma stored_emit [simp]: "stored k (emit e w) = stored k w"
  by (simp add: stored_def)

lemma stored_sleep [simp]: "stored k (sleep n w) = stored k w"
  by (simp add: stored_def)

lemma publish_event_fields [simp]:
  "payments (publish_event rk ev w) = payments w"
  "next_id (publish_event rk ev w) = next_id w"
  "clock (publish_event rk ev w) = clock w" "db_up (publish_event rk ev w) = db_up w"
  "bus_up (publish_event rk ev w) = bus_up w"
  by (simp_all add: publish_event_def publish_attempt_def)

lemma publish_event_trace:
  "trace (publish_event rk ev w) =
     trace w @ (if bus_up w then [ExchangeDeclare EXCHANGE ''topic'' True, Published rk ev]
                else [Log ''Error publishing event:''])"
  by (simp add: publish_event_def publish_attempt_def)

lemma stored_publish_event [simp]: "stored k (publish_event rk ev w) = stored k w"
  by (simp add: stored_def)

lemma query_first_up: "db_up w \<Longrightarrow> query_first k w = Inr (stored k w)"
  by (simp add: query_first_def)

lemma query_first_down: "\<not> db_up w \<Longrightarrow> query_first k w = Inl OperationalError"
  by (simp add: query_first_def)

lemma find_map_id:
  assumes "\<And>p. id_col (g p) = id_col p"
  shows "find (\<lambda>p. id_col p = k) (map (\<lambda>p. if id_col p = k then g p else p) xs)
         = map_option g (find (\<lambda>p. id_col p = k) xs)"
  using assms by (induction xs) auto

lemma find_Some_id: "find (\<lambda>p. id_col p = k) xs = Some p \<Longrightarrow> id_col p = k"
  by (auto simp: find_Some_iff)

lemma stored_id: "stored k w = Some p \<Longrightarrow> id_col p = k"
  unfolding stored_def by (rule find_Some_id)

lemma flush_update_fields [simp]:
  "next_id (flush_update p f w) = next_id w" "clock (flush_update p f w) = clock w"
  "db_up (flush_update p f w) = db_up w" "bus_up (flush_update p f w) = bus_up w"
  "trace (flush_update p f w) = trace w"
  by (simp_all add: flush_update_def)

lemma commit_update_up: "db_up w \<Longrightarrow> commit_update p f w = Inr (emit Commit (flush_update p f w))"
  by (simp add: commit_update_def)

text \<open>The row a flush leaves behind for the loaded row.\<close>

lemma stored_flush_update:
  assumes "stored k w = Some p" and "\<And>q. id_col (f q) = id_col q"
  shows "stored k (flush_update p f w) =
           Some (if f p = p then p else (f p)\<lparr>updated_at := Some (clock w)\<rparr>)"
proof (cases "f p = p")
  case True
  then show ?thesis using assms(1) by (simp add: flush_update_def)
next
  case False
  let ?g = "\<lambda>q. (f q)\<lparr>updated_at := Some (clock w)\<rparr>"
  have k: "id_col p = k" using assms(1) by (rule stored_id)
  have g: "\<And>q. id_col (?g q) = id_col q" by (simp add: assms(2))
  have "payments (flush_update p f w) =
          map (\<lambda>q. if id_col q = k then ?g q else q) (payments w)"
    using False by (simp add: flush_update_def k)
  then have "stored k (flush_update p f w) = map_option ?g (stored k w)"
    unfolding stored_def using find_map_id [of ?g k "payments w", OF g] by simp
  with False assms(1) show ?thesis by simp
qed

lemma refresh_up: "db_up w \<Longrightarrow> stored (id_col p) w = Some p' \<Longrightarrow> refresh p w = Inr p'"
  by (simp add: refresh_def query_first_up)

text \<open>
  A flush only rewrites rows; with an assignment that keeps the frame of a row, every
  row keeps its frame.
\<close>

lemma flush_update_map:
  "payments (flush_update p f w) =
     map (\<lambda>q. if id_col q = id_col p \<and> f p \<noteq> p
               then (f q)\<lparr>updated_at := Some (clock w)\<rparr> else q) (payments w)"
  by (simp add: flush_update_def)

lemma assign_status_same: "(p\<lparr>status := s\<rparr> = p) = (status p = s)"
  by (cases p) auto

lemma assign_status_ref_same:
  "(p\<lparr>status := s, transaction_ref := t\<rparr> = p) = (status p = s \<and> transaction_ref p = t)"
  by (cases p) auto

lemma flushed_status [simp]:
  "status (flushed p (\<lambda>q. q\<lparr>status := s\<rparr>) now) = s"
  "transaction_ref (flushed p (\<lambda>q. q\<lparr>status := s\<rparr>) now) = transaction_ref p"
  by (auto simp: flushed_def assign_status_same)

lemma flushed_status_ref [simp]:
  "status (flushed p (\<lambda>q. q\<lparr>status := s, transaction_ref := t\<rparr>) now) = s"
  "transaction_ref (flushed p (\<lambda>q. q\<lparr>status := s, transaction_ref := t\<rparr>) now) = t"
  by (auto simp: flushed_def assign_status_ref_same)

lemma flushed_frame:
  assumes "id_col (f p) = id_col p" "student_id (f p) = student_id p"
    "enrollment_id (f p) = enrollment_id p" "amount (f p) = amount p"
    "created_at (f p) = created_at p"
  shows "id_col (flushed p f now) = id_col p" "student_id (flushed p f now) = student_id p"
    "enrollment_id (flushed p f now) = enrollment_id p" "amount (flushed p f now) = amount p"
    "created_at (flushed p f now) = created_at p"
  using assms by (simp_all add: flushed_def)

text \<open>What a commit of assigned attributes followed by a refresh gives.\<close>

lemma commit_refresh:
  assumes "db_up w" and "stored k w = Some p" and "\<And>q. id_col (f q) = id_col q"
  shows "commit_update p f w = Inr (emit Commit (flush_update p f w))"
    and "refresh p (emit Commit (flush_update p f w)) = Inr (flushed p f (clock w))"
    and "stored k (emit Commit (flush_update p f w)) = Some (flushed p f (clock w))"
proof -
  have k: "id_col p = k" using assms(2) by (rule stored_id)
  show "commit_update p f w = Inr (emit Commit (flush_update p f w))"
    using assms(1) by (rule commit_update_up)
  show st: "stored k (emit Commit (flush_update p f w)) = Some (flushed p f (clock w))"
    using stored_flush_update [where f = f, OF assms(2) assms(3)]
    unfolding flushed_def by simp
  show "refresh p (emit Commit (flush_update p f w)) = Inr (flushed p f (clock w))"
    using st by (intro refresh_up) (simp_all add: assms(1) k)
qed

section \<open>The three mutating operations on a row that exists\<close>

lemma refund_payment_found:
  assumes "db_up w" and "stored payment_id w = Some p"
  shows "refund_payment payment_id w =
           (Inr (from_orm (flushed p (\<lambda>q. q\<lparr>status := ''REFUNDED''\<rparr>) (clock w))),
            emit (Log ''Refunded payment'')
              (publish_event ''payment.events.refund''
                 (outbound_event ''PaymentRefunded'' payment_id (enrollment_id p) (student_id p))
                 (emit Commit (flush_update p (\<lambda>q. q\<lparr>status := ''REFUNDED''\<rparr>) w))))"
proof -
  let ?f = "\<lambda>q. q\<lparr>status := ''REFUNDED''\<rparr>"
  have k: "id_col p = payment_id" using assms(2) by (rule stored_id)
  have flds: "id_col (flushed p ?f (clock w)) = payment_id"
     "enrollment_id (flushed p ?f (clock w)) = enrollment_id p"
     "student_id (flushed p ?f (clock w)) = student_id p"
    by (simp_all add: flushed_frame k)
  show ?thesis
    unfolding refund_payment_def
    by (simp add: query_first_up assms commit_refresh [OF assms, of ?f] flds Let_def)
qed

lemma approve_payment_found:
  assumes "db_up w" and "stored payment_id w = Some p"
  shows "approve_payment payment_id w =
           (Inr (from_orm (flushed p (\<lambda>q. q\<lparr>status := ''SUCCESS'',
                    transaction_ref := Some (tx_manual_ref payment_id (clock w))\<rparr>) (clock w))),
            emit (Log ''Approved payment and published PaymentConfirmed'')
              (publish_event ''payment.events.confirmed''
                 (outbound_event ''PaymentConfirmed'' payment_id (enrollment_id p) (student_id p))
                 (emit Commit (flush_update p (\<lambda>q. q\<lparr>status := ''SUCCESS'',
                    transaction_ref := Some (tx_manual_ref payment_id (clock w))\<rparr>) w))))"
proof -
  let ?f = "\<lambda>q. q\<lparr>status := ''SUCCESS'',
                    transaction_ref := Some (tx_manual_ref payment_id (clock w))\<rparr>"
  have k: "id_col p = payment_id" using assms(2) by (rule stored_id)
  have flds: "id_col (flushed p ?f (clock w)) = payment_id"
     "enrollment_id (flushed p ?f (clock w)) = enrollment_id p"
     "student_id (flushed p ?f (clock w)) = student_id p"
    by (simp_all add: flushed_frame k)
  show ?thesis
    unfolding approve_payment_def
    by (simp add: query_first_up assms commit_refresh [OF assms, of ?f] flds Let_def)
qed

lemma process_payment_try_found:
  assumes "db_up w" and "stored payment_id w = Some p" and "py_int amt = Inr n"
  shows "process_payment_try payment_id student enrollment amt w =
           (if n mod 2 = 0
            then (Inr (), emit (Log ''Payment SUCCESS, published PaymentConfirmed.'')
              (publish_event ''payment.events.confirmed''
                 (outbound_event ''PaymentConfirmed'' payment_id enrollment student)
                 (emit Commit (flush_update p (\<lambda>q. q\<lparr>status := ''SUCCESS'',
                    transaction_ref := Some (tx_ref payment_id (clock w + 1))\<rparr>) (sleep 1 w)))))
            else (Inr (), emit (Log ''Payment FAILED, published PaymentFailed.'')
              (publish_event ''payment.events.failed''
                 (outbound_event ''PaymentFailed'' payment_id enrollment student)
                 (emit Commit (flush_update p (\<lambda>q. q\<lparr>status := ''FAILED''\<rparr>) (sleep 1 w))))))"
proof -
  let ?w = "sleep 1 w"
  let ?f = "\<lambda>q. q\<lparr>status := ''SUCCESS'',
                    transaction_ref := Some (tx_ref payment_id (clock w + 1))\<rparr>"
  let ?g = "\<lambda>q. q\<lparr>status := ''FAILED''\<rparr>"
  have up: "db_up ?w" and st: "stored payment_id ?w = Some p"
    using assms by simp_all
  have k: "id_col p = payment_id" using assms(2) by (rule stored_id)
  have flds: "id_col (flushed p ?f (clock ?w)) = payment_id"
     "id_col (flushed p ?g (clock ?w)) = payment_id"
    by (simp_all add: flushed_frame k)
  have q: "query_first payment_id ?w = Inr (Some p)"
    using up st by (simp add: query_first_up)
  show ?thesis
  proof (cases "n mod 2 = 0")
    case True
    then show ?thesis
      unfolding process_payment_try_def
      using flds(1)
      by (simp add: assms(3) q commit_refresh [OF up st, of ?f] Let_def del: One_nat_def)
  next
    case False
    then show ?thesis
      unfolding process_payment_try_def
      using flds(2)
      by (simp add: assms(3) q commit_refresh [OF up st, of ?g] Let_def del: One_nat_def)
  qed
qed

lemma published_append: "published (xs @ ys) = published xs @ published ys"
  by (induction xs rule: published.induct) simp_all

lemma W1_facts: "db_up W1" "bus_up W1" "stored 1 W1 = Some P1" "trace W1 = []" "clock W1 = 5"
  by (simp_all add: W1_def stored_def P1_def)

section \<open>Effects of the operations\<close>

lemma publish_event_effects: "trace (publish_event rk ev w) = trace w @ publish_effects rk ev (bus_up w)"
  by (simp add: publish_event_trace publish_effects_def)

lemma published_publish_effects:
  "published (publish_effects rk ev up) = (if up then [(rk, ev)] else [])"
  by (simp add: publish_effects_def)

lemma refund_payment_effects:
  assumes "db_up w" and "stored k w = Some p"
  shows "stored k (snd (refund_payment k w)) =
           Some (flushed p (\<lambda>q. q\<lparr>status := ''REFUNDED''\<rparr>) (clock w))"
    and "fst (refund_payment k w) =
           Inr (from_orm (flushed p (\<lambda>q. q\<lparr>status := ''REFUNDED''\<rparr>) (clock w)))"
    and "trace (snd (refund_payment k w)) =
           trace w @ Commit #
             publish_effects ''payment.events.refund''
               (outbound_event ''PaymentRefunded'' k (enrollment_id p) (student_id p)) (bus_up w)
             @ [Log ''Refunded payment'']"
  using commit_refresh(3) [OF assms, of "\<lambda>q. q\<lparr>status := ''REFUNDED''\<rparr>"]
  by (simp_all add: refund_payment_found [OF assms] publish_event_effects)

lemma approve_payment_effects:
  assumes "db_up w" and "stored k w = Some p"
  shows "stored k (snd (approve_payment k w)) =
           Some (flushed p (\<lambda>q. q\<lparr>status := ''SUCCESS'',
                    transaction_ref := Some (tx_manual_ref k (clock w))\<rparr>) (clock w))"
    and "fst (approve_payment k w) =
           Inr (from_orm (flushed p (\<lambda>q. q\<lparr>status := ''SUCCESS'',
                    transaction_ref := Some (tx_manual_ref k (clock w))\<rparr>) (clock w)))"
    and "trace (snd (approve_payment k w)) =
           trace w @ Commit #
             publish_effects ''payment.events.confirmed''
               (outbound_event ''PaymentConfirmed'' k (enrollment_id p) (student_id p)) (bus_up w)
             @ [Log ''Approved payment and published PaymentConfirmed'']"
  using commit_refresh(3) [OF assms, of "\<lambda>q. q\<lparr>status := ''SUCCESS'',
                    transaction_ref := Some (tx_manual_ref k (clock w))\<rparr>"]
  by (simp_all add: approve_payment_found [OF assms] publish_event_effects)

lemma process_payment_success:
  assumes "db_up w" and "stored k w = Some p" and "py_int amt = Inr n" and "n mod 2 = 0"
  shows "stored k (process_payment_and_publish k student enrollment amt w) =
           Some (flushed p (\<lambda>q. q\<lparr>status := ''SUCCESS'',
                    transaction_ref := Some (tx_ref k (clock w + 1))\<rparr>) (clock w + 1))"
    and "trace (process_payment_and_publish k student enrollment amt w) =
           trace w @ Commit #
             publish_effects ''payment.events.confirmed''
               (outbound_event ''PaymentConfirmed'' k enrollment student) (bus_up w)
             @ [Log ''Payment SUCCESS, published PaymentConfirmed.'']"
proof -
  have up: "db_up (sleep 1 w)" and st: "stored k (sleep 1 w) = Some p"
    using assms by simp_all
  note c = commit_refresh(3) [OF up st, of "\<lambda>q. q\<lparr>status := ''SUCCESS'',
                    transaction_ref := Some (tx_ref k (clock w + 1))\<rparr>"]
  show "stored k (process_payment_and_publish k student enrollment amt w) =
           Some (flushed p (\<lambda>q. q\<lparr>status := ''SUCCESS'',
                    transaction_ref := Some (tx_ref k (clock w + 1))\<rparr>) (clock w + 1))"
    using c assms(4)
    by (simp add: process_payment_and_publish_def process_payment_try_found [OF assms(1-3)]
          del: One_nat_def)
  show "trace (process_payment_and_publish k student enrollment amt w) =
           trace w @ Commit #
             publish_effects ''payment.events.confirmed''
               (outbound_event ''PaymentConfirmed'' k enrollment student) (bus_up w)
             @ [Log ''Payment SUCCESS, published PaymentConfirmed.'']"
    using assms(4)
    by (simp add: process_payment_and_publish_def process_payment_try_found [OF assms(1-3)]
          publish_event_effects del: One_nat_def)
qed

lemma process_payment_failed:
  assumes "db_up w" and "stored k w = Some p" and "py_int amt = Inr n" and "n mod 2 \<noteq> 0"
  shows "stored k (process_payment_and_publish k student enrollment amt w) =
           Some (flushed p (\<lambda>q. q\<lparr>status := ''FAILED''\<rparr>) (clock w + 1))"
    and "trace (process_payment_and_publish k student enrollment amt w) =
           trace w @ Commit #
             publish_effects ''payment.events.failed''
               (outbound_event ''PaymentFailed'' k enrollment student) (bus_up w)
             @ [Log ''Payment FAILED, published PaymentFailed.'']"
proof -
  have up: "db_up (sleep 1 w)" and st: "stored k (sleep 1 w) = Some p"
    using assms by simp_all
  note c = commit_refresh(3) [OF up st, of "\<lambda>q. q\<lparr>status := ''FAILED''\<rparr>"]
  show "stored k (process_payment_and_publish k student enrollment amt w) =
           Some (flushed p (\<lambda>q. q\<lparr>status := ''FAILED''\<rparr>) (clock w + 1))"
    using c assms(4)
    by (simp add: process_payment_and_publish_def process_payment_try_found [OF assms(1-3)]
          del: One_nat_def)
  show "trace (process_payment_and_publish k student enrollment amt w) =
           trace w @ Commit #
             publish_effects ''payment.events.failed''
               (outbound_event ''PaymentFailed'' k enrollment student) (bus_up w)
             @ [Log ''Payment FAILED, published PaymentFailed.'']"
    using assms(4)
    by (simp add: process_payment_and_publish_def process_payment_try_found [OF assms(1-3)]
          publish_event_effects del: One_nat_def)
qed


lemma flush_update_rel:
  assumes "\<And>q. R q q" and "\<And>q. R q ((f q)\<lparr>updated_at := Some (clock w)\<rparr>)"
  shows "list_all2 R (payments w) (payments (flush_update p f w))"
  using assms by (simp add: flush_update_def list_all2_map2 list_all2_same)

lemma flush_update_frame:
  assumes "\<And>q. frame (f q) = frame q"
  shows "map frame (payments (flush_update p f w)) = map frame (payments w)"
proof -
  have "\<And>q. frame ((f q)\<lparr>updated_at := Some (clock w)\<rparr>) = frame q"
    using assms by (simp add: frame_def)
  then show ?thesis by (simp add: flush_update_def)
qed

lemma refund_payment_rows:
  "payments (snd (refund_payment k w)) = payments w
   \<or> (\<exists>p. payments (snd (refund_payment k w)) =
            payments (flush_update p (\<lambda>q. q\<lparr>status := ''REFUNDED''\<rparr>) w))"
proof (cases "db_up w")
  case False
  then show ?thesis by (simp add: refund_payment_def query_first_down)
next
  case True
  show ?thesis
  proof (cases "stored k w")
    case None
    with True show ?thesis by (simp add: refund_payment_def query_first_up)
  next
    case (Some p)
    show ?thesis by (rule disjI2, rule exI [of _ p]) (simp add: refund_payment_found [OF True Some])
  qed
qed

lemma approve_payment_rows:
  "payments (snd (approve_payment k w)) = payments w
   \<or> (\<exists>p. payments (snd (approve_payment k w)) =
            payments (flush_update p (\<lambda>q. q\<lparr>status := ''SUCCESS'',
                transaction_ref := Some (tx_manual_ref k (clock w))\<rparr>) w))"
proof (cases "db_up w")
  case False
  then show ?thesis by (simp add: approve_payment_def query_first_down)
next
  case True
  show ?thesis
  proof (cases "stored k w")
    case None
    with True show ?thesis by (simp add: approve_payment_def query_first_up)
  next
    case (Some p)
    show ?thesis by (rule disjI2, rule exI [of _ p]) (simp add: approve_payment_found [OF True Some])
  qed
qed

lemma process_payment_try_no_row:
  "stored k w = None \<or> \<not> db_up w \<or> (\<exists>e. py_int amt = Inl e) \<Longrightarrow>
   payments (snd (process_payment_try k student enrollment amt w)) = payments w
   \<and> next_id (snd (process_payment_try k student enrollment amt w)) = next_id w
   \<and> published (trace (snd (process_payment_try k student enrollment amt w))) = published (trace w)"
  by (cases "py_int amt"; cases "db_up w")
     (auto simp: process_payment_try_def query_first_def Let_def published_append
           simp del: One_nat_def)


lemma process_payments_snd:
  "payments (process_payment_and_publish k student enrollment amt w) =
     payments (snd (process_payment_try k student enrollment amt w))"
  by (simp add: process_payment_and_publish_def split: prod.split sum.split)

lemma process_payment_rows:
  "payments (process_payment_and_publish k student enrollment amt w) = payments w
   \<or> (\<exists>p. payments (process_payment_and_publish k student enrollment amt w) =
            payments (flush_update p (\<lambda>q. q\<lparr>status := ''SUCCESS'',
                transaction_ref := Some (tx_ref k (clock w + 1))\<rparr>) (sleep 1 w)))
   \<or> (\<exists>p. payments (process_payment_and_publish k student enrollment amt w) =
            payments (flush_update p (\<lambda>q. q\<lparr>status := ''FAILED''\<rparr>) (sleep 1 w)))"
proof (cases "stored k w = None \<or> \<not> db_up w \<or> (\<exists>e. py_int amt = Inl e)")
  case True
  then show ?thesis
    using process_payment_try_no_row [of k w amt student enrollment]
    by (simp add: process_payments_snd)
next
  case False
  then obtain p n where f: "db_up w" "stored k w = Some p" "py_int amt = Inr n"
    by (cases "py_int amt") auto
  show ?thesis
  proof (cases "n mod 2 = 0")
    case True
    then have "payments (process_payment_and_publish k student enrollment amt w) =
            payments (flush_update p (\<lambda>q. q\<lparr>status := ''SUCCESS'',
                transaction_ref := Some (tx_ref k (clock w + 1))\<rparr>) (sleep 1 w))"
      by (simp add: process_payments_snd process_payment_try_found [OF f] del: One_nat_def)
    then show ?thesis by blast
  next
    case False
    then have "payments (process_payment_and_publish k student enrollment amt w) =
            payments (flush_update p (\<lambda>q. q\<lparr>status := ''FAILED''\<rparr>) (sleep 1 w))"
      by (simp add: process_payments_snd process_payment_try_found [OF f] del: One_nat_def)
    then show ?thesis by blast
  qed
qed

lemma frame_assign [simp]:
  "frame (q\<lparr>status := s\<rparr>) = frame q"
  "frame (q\<lparr>status := s, transaction_ref := t\<rparr>) = frame q"
  by (simp_all add: frame_def)

lemma W2_facts: "db_up W2" "\<not> bus_up W2" "stored 1 W2 = Some P1" "trace W2 = []" "clock W2 = 5"
  by (simp_all add: W2_def stored_def P1_def)

lemma py_int_100: "py_int (Finite 100) = Inr 100"
  by (simp add: py_int_def)

section \<open>Inserting a payment\<close>

lemma lose_db_fields [simp]:
  "payments (lose_db lost w) = payments w" "next_id (lose_db lost w) = next_id w"
  "clock (lose_db lost w) = clock w" "bus_up (lose_db lost w) = bus_up w"
  "trace (lose_db lost w) = trace w" "db_up (lose_db lost w) = (db_up w \<and> \<not> lost)"
  "lose_db False w = w"
  by (simp_all add: lose_db_def)

lemma stored_lose_db [simp]: "stored k (lose_db lost w) = stored k w"
  by (simp add: stored_def)

lemma strict_store_ok: "store_ok strict_store"
  by (auto simp: store_ok_def strict_store_def strict_values_def float_value_def
        split: json.splits)

lemma insert_commit_ok:
  assumes "db_up w" and "insert_values c sid eid amt = Inr (s, n, a)"
  shows "insert_commit c sid eid amt st w =
           (Inr \<lparr> id_col = next_id w, student_id = s, enrollment_id = n, amount = a,
                   status = st, transaction_ref = None, created_at = clock w,
                   updated_at = None \<rparr>,
            emit Commit
              (w\<lparr>payments := payments w @
                     [\<lparr> id_col = next_id w, student_id = s, enrollment_id = n, amount = a,
                         status = st, transaction_ref = None, created_at = clock w,
                         updated_at = None \<rparr>],
                  next_id := next_id w + 1\<rparr>))"
  using assms by (simp add: insert_commit_def Let_def)

lemma insert_commit_Inl:
  assumes "insert_commit c sid eid amt st w = (Inl e, w1)"
  shows "payments w1 = payments w" "trace w1 = trace w" "db_up w1 = db_up w"
    "bus_up w1 = bus_up w" "clock w1 = clock w"
  using assms
  by (auto simp: insert_commit_def Let_def split: if_splits sum.splits prod.splits)

lemma insert_commit_Inr:
  assumes "insert_commit c sid eid amt st w = (Inr p, w1)"
  shows "db_up w" "db_up w1" "payments w1 = payments w @ [p]" "status p = st"
    "id_col p = next_id w" "trace w1 = trace w @ [Commit]" "bus_up w1 = bus_up w"
  using assms
  by (auto simp: insert_commit_def Let_def split: if_splits sum.splits prod.splits)

text \<open>A row that was just inserted is found again as long as the database is there.\<close>

lemma refresh_after_insert:
  assumes "insert_commit c sid eid amt st w = (Inr p, w1)"
  shows "\<exists>p'. refresh p (lose_db False w1) = Inr p'"
    and "refresh p (lose_db True w1) = Inl OperationalError"
proof -
  have "p \<in> set (payments w1)" using insert_commit_Inr(3) [OF assms] by simp
  then have "find (\<lambda>q. id_col q = id_col p) (payments w1) \<noteq> None"
    by (auto simp: find_None_iff)
  then obtain p' where "stored (id_col p) w1 = Some p'"
    by (auto simp: stored_def)
  then show "\<exists>p'. refresh p (lose_db False w1) = Inr p'"
    using insert_commit_Inr(2) [OF assms] by (simp add: refresh_def query_first_def)
  show "refresh p (lose_db True w1) = Inl OperationalError"
    by (simp add: refresh_def query_first_def)
qed


text \<open>The world after the INSERT of the row \<open>p\<close> is committed.\<close>

lemma add_commit_refresh_ok:
  assumes "db_up w" and "insert_values c sid eid amt = Inr (s, n, a)"
  shows "\<exists>p'. add_commit_refresh c False sid eid amt st w =
           (Inr p',
            emit Commit
              (w\<lparr>payments := payments w @
                     [\<lparr> id_col = next_id w, student_id = s, enrollment_id = n, amount = a,
                         status = st, transaction_ref = None, created_at = clock w,
                         updated_at = None \<rparr>],
                  next_id := next_id w + 1\<rparr>))"
proof -
  note i = insert_commit_ok [OF assms, of st]
  from refresh_after_insert(1) [OF i] obtain p' where
    "refresh \<lparr> id_col = next_id w, student_id = s, enrollment_id = n, amount = a,
               status = st, transaction_ref = None, created_at = clock w,
               updated_at = None \<rparr>
       (emit Commit
          (w\<lparr>payments := payments w @
                 [\<lparr> id_col = next_id w, student_id = s, enrollment_id = n, amount = a,
                     status = st, transaction_ref = None, created_at = clock w,
                     updated_at = None \<rparr>],
              next_id := next_id w + 1\<rparr>)) = Inr p'"
    by auto
  then show ?thesis by (simp add: add_commit_refresh_def i)
qed

lemma add_commit_refresh_lost:
  assumes "db_up w" and "insert_values c sid eid amt = Inr (s, n, a)"
  shows "add_commit_refresh c True sid eid amt st w =
           (Inl OperationalError,
            lose_db True
              (emit Commit
                 (w\<lparr>payments := payments w @
                        [\<lparr> id_col = next_id w, student_id = s, enrollment_id = n, amount = a,
                            status = st, transaction_ref = None, created_at = clock w,
                            updated_at = None \<rparr>],
                     next_id := next_id w + 1\<rparr>)))"
proof -
  note i = insert_commit_ok [OF assms, of st]
  show ?thesis
    using refresh_after_insert(2) [OF i] by (simp add: add_commit_refresh_def i)
qed


lemma add_commit_refresh_rows:
  "payments (snd (add_commit_refresh c lost sid eid amt st w)) = payments w
   \<or> (\<exists>p. payments (snd (add_commit_refresh c lost sid eid amt st w)) = payments w @ [p]
          \<and> status p = st)"
proof -
  obtain r w0 where i: "insert_commit c sid eid amt st w = (r, w0)"
    by (cases "insert_commit c sid eid amt st w")
  show ?thesis
  proof (cases r)
    case (Inl e')
    then have "insert_commit c sid eid amt st w = (Inl e', w0)" using i by simp
    then have "payments w0 = payments w" by (rule insert_commit_Inl(1))
    with i Inl show ?thesis by (simp add: add_commit_refresh_def)
  next
    case (Inr p)
    then have "insert_commit c sid eid amt st w = (Inr p, w0)" using i by simp
    then have "payments w0 = payments w @ [p] \<and> status p = st"
      by (simp add: insert_commit_Inr)
    moreover have "payments (snd (add_commit_refresh c lost sid eid amt st w)) = payments w0"
      using i Inr by (simp add: add_commit_refresh_def split: sum.splits)
    ultimately show ?thesis by auto
  qed
qed


lemma initiate_payment_rows:
  "payments (snd (initiate_payment c lost s e a w)) = payments w
   \<or> (\<exists>p. payments (snd (initiate_payment c lost s e a w)) = payments w @ [p]
          \<and> status p = ''PENDING'')"
proof -
  let ?i = "add_commit_refresh c lost (JStr s) (JInt e) (JFloat a) ''PENDING'' w"
  have "payments (snd (initiate_payment c lost s e a w)) = payments (snd ?i)"
    by (cases ?i) (simp add: initiate_payment_def split: sum.splits)
  then show ?thesis
    using add_commit_refresh_rows [of c lost "JStr s" "JInt e" "JFloat a" "''PENDING''" w]
    by simp
qed

text \<open>Creating a payment over HTTP while the database stays up.\<close>

lemma initiate_payment_up:
  assumes "store_ok c" and "db_up w" and "varchar64 student" and "int32 enrollment"
  shows "snd (initiate_payment c False student enrollment amt w) =
           emit (Log ''Created payment status=PENDING'')
             (emit Commit
                (w\<lparr>payments := payments w @ [pending_payment student enrollment amt w],
                    next_id := next_id w + 1\<rparr>))"
proof -
  have v: "insert_values c (JStr student) (JInt enrollment) (JFloat amt)
             = Inr (student, enrollment, amt)"
    using assms(1,3,4) by (simp add: store_ok_def float_value_def)
  from add_commit_refresh_ok [OF assms(2) v, of "''PENDING''"] show ?thesis
    by (auto simp: initiate_payment_def pending_payment_def)
qed

lemma sample_bounds: "varchar64 ''S1''" "varchar64 ''S2''" "int32 42" "int32 7"
  by (simp_all add: varchar64_def int32_def)


lemma W0_facts: "db_up W0" "clock W0 = 0" "next_id W0 = 1" "payments W0 = []"
  by (simp_all add: W0_def)

lemma W_odd_created_facts:
  "db_up W_odd_created" "clock W_odd_created = 0"
  "stored 1 W_odd_created =
     Some \<lparr> id_col = 1, student_id = ''S1'', enrollment_id = 42, amount = Finite 101,
            status = ''PENDING'', transaction_ref = None, created_at = 0, updated_at = None \<rparr>"
proof -
  note i = initiate_payment_up [OF strict_store_ok W0_facts(1) sample_bounds(1,3), of "Finite 101"]
  show "db_up W_odd_created" "clock W_odd_created = 0"
    by (simp_all add: W_odd_created_def i W0_facts)
  show "stored 1 W_odd_created =
     Some \<lparr> id_col = 1, student_id = ''S1'', enrollment_id = 42, amount = Finite 101,
            status = ''PENDING'', transaction_ref = None, created_at = 0, updated_at = None \<rparr>"
    by (simp add: W_odd_created_def i stored_def pending_payment_def W0_facts)
qed

lemma tx_manual_ref_1_0: "tx_manual_ref 1 0 = ''tx-manual-1-0''"
  by code_simp

lemma W_odd_approved_facts:
  "db_up W_odd_approved" "clock W_odd_approved = 0"
  "stored 1 W_odd_approved =
     Some \<lparr> id_col = 1, student_id = ''S1'', enrollment_id = 42, amount = Finite 101,
            status = ''SUCCESS'', transaction_ref = Some ''tx-manual-1-0'', created_at = 0,
            updated_at = Some 0 \<rparr>"
proof -
  note a = approve_payment_found [OF W_odd_created_facts(1) W_odd_created_facts(3)]
  show "db_up W_odd_approved" "clock W_odd_approved = 0"
    by (simp_all add: W_odd_approved_def a W_odd_created_facts)
  show "stored 1 W_odd_approved =
     Some \<lparr> id_col = 1, student_id = ''S1'', enrollment_id = 42, amount = Finite 101,
            status = ''SUCCESS'', transaction_ref = Some ''tx-manual-1-0'', created_at = 0,
            updated_at = Some 0 \<rparr>"
    unfolding W_odd_approved_def
    by (simp add: approve_payment_effects(1) [OF W_odd_created_facts(1) W_odd_created_facts(3)]
          flushed_def W_odd_created_facts tx_manual_ref_1_0)
qed

lemma py_int_101: "py_int (Finite 101) = Inr 101"
  by (simp add: py_int_def)

lemma py_int_nonneg: "0 \<le> a \<Longrightarrow> py_int (Finite a) = Inr \<lfloor>a\<rfloor>"
  by (simp add: py_int_def)

lemma tx_ref_1_6: "tx_ref 1 6 = ''tx-1-6''"
  by code_simp

lemma W_even_created_facts:
  "db_up W_even_created" "clock W_even_created = 0"
  "payments W_even_created =
     [\<lparr> id_col = 1, student_id = ''S1'', enrollment_id = 42, amount = Finite 100,
         status = ''PENDING'', transaction_ref = None, created_at = 0, updated_at = None \<rparr>]"
proof -
  note i = initiate_payment_up [OF strict_store_ok W0_facts(1) sample_bounds(1,3), of "Finite 100"]
  show "db_up W_even_created" "clock W_even_created = 0"
    by (simp_all add: W_even_created_def i W0_facts)
  show "payments W_even_created =
     [\<lparr> id_col = 1, student_id = ''S1'', enrollment_id = 42, amount = Finite 100,
         status = ''PENDING'', transaction_ref = None, created_at = 0, updated_at = None \<rparr>]"
    by (simp add: W_even_created_def i pending_payment_def W0_facts)
qed

lemma tx_ref_1_1: "tx_ref 1 1 = ''tx-1-1''"
  by code_simp

lemma tx_manual_ref_1_1: "tx_manual_ref 1 1 = ''tx-manual-1-1''"
  by code_simp

lemma W_even_processed_facts:
  "db_up W_even_processed" "clock W_even_processed = 1"
  "payments W_even_processed =
     [\<lparr> id_col = 1, student_id = ''S1'', enrollment_id = 42, amount = Finite 100,
         status = ''SUCCESS'', transaction_ref = Some ''tx-1-1'', created_at = 0,
         updated_at = Some 1 \<rparr>]"
proof -
  have st: "stored 1 W_even_created =
     Some \<lparr> id_col = 1, student_id = ''S1'', enrollment_id = 42, amount = Finite 100,
         status = ''PENDING'', transaction_ref = None, created_at = 0, updated_at = None \<rparr>"
    by (simp add: stored_def W_even_created_facts)
  have ev: "(100::int) mod 2 = 0" by simp
  note t = process_payment_try_found [OF W_even_created_facts(1) st py_int_100,
             where student = "''S1''" and enrollment = 42]
  show "db_up W_even_processed" "clock W_even_processed = 1"
    by (simp_all add: W_even_processed_def process_payment_and_publish_def t
          W_even_created_facts del: One_nat_def)
  show "payments W_even_processed =
     [\<lparr> id_col = 1, student_id = ''S1'', enrollment_id = 42, amount = Finite 100,
         status = ''SUCCESS'', transaction_ref = Some ''tx-1-1'', created_at = 0,
         updated_at = Some 1 \<rparr>]"
    by (simp add: W_even_processed_def process_payment_and_publish_def t
          flush_update_def W_even_created_facts tx_ref_1_1 del: One_nat_def)
qed

lemma W_even_processed_stored:
  "stored 1 W_even_processed =
     Some \<lparr> id_col = 1, student_id = ''S1'', enrollment_id = 42, amount = Finite 100,
         status = ''SUCCESS'', transaction_ref = Some ''tx-1-1'', created_at = 0,
         updated_at = Some 1 \<rparr>"
  by (simp add: stored_def W_even_processed_facts)

lemma flush_update_ref:
  assumes "\<And>q. transaction_ref (f q) = transaction_ref q"
  shows "map transaction_ref (payments (flush_update p f w)) = map transaction_ref (payments w)"
  using assms by (simp add: flush_update_def)

section \<open>The consumer's callback\<close>

lemma valid_payload_values:
  assumes "store_ok c"
    and "map_of payload ''enrollment_id'' = Some (JInt n)" and "int32 n"
    and "map_of payload ''student_id'' = Some (JStr s)" and "varchar64 s"
    and "payload_amount payload = Some a"
  shows "insert_values c (dict_get payload ''student_id'') (dict_get payload ''enrollment_id'')
           (dict_get_default payload ''amount'' (JFloat (Finite 0))) = Inr (s, n, a)"
  using assms by (simp add: store_ok_def dict_get_def payload_amount_def)

lemma process_registration_event_valid:
  assumes "store_ok c" and "db_up w" and "map_of b ''payload'' = Some (JObj payload)"
    and "map_of payload ''enrollment_id'' = Some (JInt n)" and "int32 n"
    and "map_of payload ''student_id'' = Some (JStr s)" and "varchar64 s"
    and "payload_amount payload = Some a"
  shows "process_registration_event c False (JObj b) w =
           (Inr (), emit (Log ''Created PENDING payment'')
              (emit Commit (w\<lparr>payments := payments w @ [pending_payment s n a w],
                              next_id := next_id w + 1\<rparr>)))"
    and "process_registration_event c True (JObj b) w =
           (Inl OperationalError,
            lose_db True
              (emit Commit (w\<lparr>payments := payments w @ [pending_payment s n a w],
                              next_id := next_id w + 1\<rparr>)))"
proof -
  note v = valid_payload_values [OF assms(1) assms(4-8)]
  from add_commit_refresh_ok [OF assms(2) v, of "''PENDING''"] obtain p' where
    ok: "add_commit_refresh c False (dict_get payload ''student_id'')
           (dict_get payload ''enrollment_id'')
           (dict_get_default payload ''amount'' (JFloat (Finite 0))) ''PENDING'' w =
         (Inr p', emit Commit (w\<lparr>payments := payments w @ [pending_payment s n a w],
                                 next_id := next_id w + 1\<rparr>))"
    by (auto simp: pending_payment_def)
  have pl: "dict_get_default b ''payload'' (JObj []) = JObj payload"
    using assms(3) by (simp add: dict_get_default_def)
  show "process_registration_event c False (JObj b) w =
           (Inr (), emit (Log ''Created PENDING payment'')
              (emit Commit (w\<lparr>payments := payments w @ [pending_payment s n a w],
                              next_id := next_id w + 1\<rparr>)))"
    by (simp add: process_registration_event_def pl ok Let_def)
  show "process_registration_event c True (JObj b) w =
           (Inl OperationalError,
            lose_db True
              (emit Commit (w\<lparr>payments := payments w @ [pending_payment s n a w],
                              next_id := next_id w + 1\<rparr>)))"
    using add_commit_refresh_lost [OF assms(2) v, of "''PENDING''"]
    by (simp add: process_registration_event_def pl pending_payment_def Let_def)
qed



lemma callback_raise:
  assumes "callback_process c lost body w = (Inl e, w1)"
  shows "callback c lost tag body w =
           (if bus_up w1 then emit (Nack tag False) (emit (Log ''Error processing message:'') w1)
            else emit (Log ''Error processing message:'') w1)"
  using assms by (simp add: callback_def basic_nack_def)

lemma callback_valid:
  assumes "store_ok c" and "db_up w" and "map_of b ''payload'' = Some (JObj payload)"
    and "map_of payload ''enrollment_id'' = Some (JInt n)" and "int32 n"
    and "map_of payload ''student_id'' = Some (JStr s)" and "varchar64 s"
    and "payload_amount payload = Some a"
  shows "payments (callback c lost tag (Some (JObj b)) w) = payments w @ [pending_payment s n a w]"
    and "bus_up w \<Longrightarrow> trace (callback c False tag (Some (JObj b)) w) =
           trace w @ [Log ''Payment consumer received message:'', Commit,
                      Log ''Created PENDING payment'', Ack tag,
                      Log ''Message processed and acked:'']"
    and "callback_process c True (Some (JObj b)) w =
           (Inl OperationalError,
            lose_db True
              (emit Commit
                 ((emit (Log ''Payment consumer received message:'') w)
                    \<lparr>payments := payments w @ [pending_payment s n a w],
                     next_id := next_id w + 1\<rparr>)))"
    and "trace (callback c True tag (Some (JObj b)) w) =
           trace w @ [Log ''Payment consumer received message:'', Commit,
                      Log ''Error processing message:'']
             @ (if bus_up w then [Nack tag False] else [])"
proof -
  let ?w = "emit (Log ''Payment consumer received message:'') w"
  have up: "db_up ?w" using assms(2) by simp
  have pp: "pending_payment s n a ?w = pending_payment s n a w"
    by (simp add: pending_payment_def)
  note p = process_registration_event_valid [OF assms(1) up assms(3-8), unfolded pp]
  show lost: "callback_process c True (Some (JObj b)) w =
           (Inl OperationalError,
            lose_db True
              (emit Commit
                 ((emit (Log ''Payment consumer received message:'') w)
                    \<lparr>payments := payments w @ [pending_payment s n a w],
                     next_id := next_id w + 1\<rparr>)))"
    by (simp add: callback_process_def json_loads_def p(2))
  show "payments (callback c lost tag (Some (JObj b)) w) = payments w @ [pending_payment s n a w]"
  proof (cases lost)
    case True
    then show ?thesis by (simp add: callback_raise [OF lost])
  next
    case False
    then show ?thesis
      by (simp add: callback_def callback_process_def json_loads_def p(1) basic_ack_def
            basic_nack_def)
  qed
  show "trace (callback c True tag (Some (JObj b)) w) =
           trace w @ [Log ''Payment consumer received message:'', Commit,
                      Log ''Error processing message:'']
             @ (if bus_up w then [Nack tag False] else [])"
    by (simp add: callback_raise [OF lost])
  assume "bus_up w"
  then show "trace (callback c False tag (Some (JObj b)) w) =
           trace w @ [Log ''Payment consumer received message:'', Commit,
                      Log ''Created PENDING payment'', Ack tag,
                      Log ''Message processed and acked:'']"
    by (simp add: callback_def callback_process_def json_loads_def p(1) basic_ack_def)
qed


lemma callback_payments:
  "payments (callback c lost tag body w) = payments (snd (callback_process c lost body w))"
proof (cases "callback_process c lost body w")
  case (Pair r w1)
  show ?thesis
  proof (cases r)
    case (Inl e)
    with Pair show ?thesis by (simp add: callback_def basic_nack_def)
  next
    case (Inr u)
    with Pair show ?thesis by (simp add: callback_def basic_ack_def basic_nack_def)
  qed
qed

lemma process_registration_event_rows:
  "payments (snd (process_registration_event c lost v w)) = payments w
   \<or> (\<exists>p. payments (snd (process_registration_event c lost v w)) = payments w @ [p]
          \<and> status p = ''PENDING'')"
proof (cases v)
  case (JObj b)
  show ?thesis
  proof (cases "dict_get_default b ''payload'' (JObj [])")
    case (JObj payload)
    let ?i = "add_commit_refresh c lost (dict_get payload ''student_id'')
                (dict_get payload ''enrollment_id'')
                (dict_get_default payload ''amount'' (JFloat (Finite 0))) ''PENDING'' w"
    have "payments (snd (process_registration_event c lost v w)) = payments (snd ?i)"
      using \<open>v = JObj b\<close> JObj
      by (cases ?i) (simp add: process_registration_event_def Let_def split: sum.splits)
    then show ?thesis
      using add_commit_refresh_rows [of c lost "dict_get payload ''student_id''"
              "dict_get payload ''enrollment_id''"
              "dict_get_default payload ''amount'' (JFloat (Finite 0))" "''PENDING''" w]
      by simp
  qed (simp_all add: \<open>v = JObj b\<close> process_registration_event_def)
qed (simp_all add: process_registration_event_def)

lemma callback_rows:
  "payments (callback c lost tag body w) = payments w
   \<or> (\<exists>p. payments (callback c lost tag body w) = payments w @ [p] \<and> status p = ''PENDING'')"
proof (cases body)
  case None
  then show ?thesis by (simp add: callback_payments callback_process_def json_loads_def)
next
  case (Some v)
  then show ?thesis
    using process_registration_event_rows
            [of c lost v "emit (Log ''Payment consumer received message:'') w"]
    by (simp add: callback_payments callback_process_def json_loads_def)
qed

text \<open>An event without a payload is refused by every store that agrees with models.py.\<close>

lemma callback_no_payload:
  assumes "store_ok c" and "map_of b ''payload'' = None"
  shows "payments (callback c lost tag (Some (JObj b)) w) = payments w"
proof -
  let ?w = "emit (Log ''Payment consumer received message:'') w"
  from assms(1) obtain e where e: "insert_values c JNull JNull (JFloat (Finite 0)) = Inl e"
    unfolding store_ok_def by blast
  obtain r w0 where i: "insert_commit c JNull JNull (JFloat (Finite 0)) ''PENDING'' ?w = (r, w0)"
    by (cases "insert_commit c JNull JNull (JFloat (Finite 0)) ''PENDING'' ?w")
  then obtain e' where r: "r = Inl e'"
    using e by (cases "db_up ?w") (auto simp: insert_commit_def)
  with i have "payments w0 = payments ?w" by (simp add: insert_commit_Inl)
  with i r assms(2) show ?thesis
    by (simp add: callback_payments callback_process_def json_loads_def
          process_registration_event_def dict_get_default_def dict_get_def
          add_commit_refresh_def Let_def)
qed

lemma E1_facts:
  "map_of E1 ''payload'' = Some (JObj [(''enrollment_id'', JInt 7), (''student_id'', JStr ''S2'')])"
  "map_of [(''enrollment_id'', JInt 7), (''student_id'', JStr ''S2'')] ''enrollment_id''
     = Some (JInt 7)"
  "map_of [(''enrollment_id'', JInt 7), (''student_id'', JStr ''S2'')] ''student_id''
     = Some (JStr ''S2'')"
  "payload_amount [(''enrollment_id'', JInt 7), (''student_id'', JStr ''S2'')] = Some (Finite 0)"
  "map_of [(''enrollment_id'', JInt 7), (''student_id'', JStr ''S2'')] ''amount'' = None"
  by (simp_all add: E1_def payload_amount_def dict_get_default_def float_value_def)


section \<open>Listing\<close>

lemma upper_statuses:
  "upper ''PENDING'' = ''PENDING''" "upper ''SUCCESS'' = ''SUCCESS''"
  "upper ''FAILED'' = ''FAILED''" "upper ''REFUNDED'' = ''REFUNDED''"
  "upper ''success'' = ''SUCCESS''"
  by code_simp+

lemma status_ok_upper:
  assumes "status_ok w" and "p \<in> set (payments w)"
  shows "upper (status p) = status p"
proof -
  have "status p \<in> set [''PENDING'', ''SUCCESS'', ''FAILED'', ''REFUNDED'']"
    using assms by (simp add: status_ok_def list_all_iff)
  then show ?thesis using upper_statuses by auto
qed

lemma filter_status_matches:
  assumes "status_ok w"
  shows "filter_status status_q (payments w) = filter (status_matches status_q) (payments w)"
proof (cases status_q)
  case None
  then show ?thesis by (simp add: filter_status_def status_matches_def)
next
  case (Some s)
  show ?thesis
  proof (cases "s = []")
    case True
    with Some show ?thesis by (simp add: filter_status_def status_matches_def)
  next
    case False
    have "filter (\<lambda>p. status p = upper s) (payments w)
            = filter (\<lambda>p. upper s = upper (status p)) (payments w)"
      by (rule filter_cong) (auto simp: status_ok_upper [OF assms])
    moreover have "status_matches (Some s) = (\<lambda>p. upper s = upper (status p))"
      using False by (auto simp: status_matches_def fun_eq_iff)
    ultimately show ?thesis using Some False by (simp add: filter_status_def)
  qed
qed

lemma filter_student_matches:
  "filter_student student_q q = filter (student_matches student_q) q"
proof (cases student_q)
  case None
  then show ?thesis by (simp add: filter_student_def student_matches_def)
next
  case (Some s)
  have "student_matches (Some s) = (\<lambda>p. s = [] \<or> student_id p = s)"
    by (auto simp: student_matches_def fun_eq_iff)
  with Some show ?thesis by (simp add: filter_student_def)
qed

lemma sorted_desc_sort_key:
  "sorted_wrt (\<lambda>a b. created_at b \<le> created_at a) (sort_key (\<lambda>p. - int (created_at p)) q)"
proof -
  have "sorted (map (\<lambda>p. - int (created_at p)) (sort_key (\<lambda>p. - int (created_at p)) q))"
    by (rule sorted_sort_key)
  then show ?thesis by (simp add: sorted_wrt_map sorted_wrt_iff_nth_less)
qed

lemma W3_facts: "db_up W3" "status_ok W3"
  by (simp_all add: W3_def status_ok_def)

lemma upper_mixed: "upper ''SuCcEsS'' = ''SUCCESS''"
  by code_simp

section \<open>An invariant of the store\<close>

text \<open>
  Every stored status is one of the four upper-case values: the empty store satisfies
  \<open>status_ok\<close> and every operation that writes rows keeps it.
\<close>

lemma status_ok_W0: "status_ok W0"
  by (simp add: status_ok_def W0_def)

lemma status_ok_payments: "payments w' = payments w \<Longrightarrow> status_ok w \<Longrightarrow> status_ok w'"
  by (simp add: status_ok_def)

lemma list_all_flush_update:
  assumes "list_all P (payments w)" and "\<And>q. P ((f q)\<lparr>updated_at := Some (clock w)\<rparr>)"
  shows "list_all P (payments (flush_update p f w))"
  using assms by (auto simp: flush_update_def list_all_iff)

lemma status_ok_flush_update:
  assumes "status_ok w" and "payments w0 = payments w"
    and "\<And>q. status (f q) \<in> set [''PENDING'', ''SUCCESS'', ''FAILED'', ''REFUNDED'']"
    and "payments w' = payments (flush_update p f w0)"
  shows "status_ok w'"
proof -
  let ?P = "\<lambda>p. status p \<in> set [''PENDING'', ''SUCCESS'', ''FAILED'', ''REFUNDED'']"
  have "list_all ?P (payments w0)" using assms(1,2) by (simp add: status_ok_def)
  moreover have "\<And>q. ?P ((f q)\<lparr>updated_at := Some (clock w0)\<rparr>)"
    using assms(3) by simp
  ultimately have "list_all ?P (payments (flush_update p f w0))"
    by (rule list_all_flush_update)
  then show ?thesis using assms(4) by (simp add: status_ok_def)
qed

lemma status_ok_append:
  assumes "status_ok w" and "payments w' = payments w @ [p]" and "status p = ''PENDING''"
  shows "status_ok w'"
  using assms by (simp add: status_ok_def)

lemma status_ok_initiate_payment:
  "status_ok w \<Longrightarrow> status_ok (snd (initiate_payment c lost s e a w))"
  using initiate_payment_rows [of c lost s e a w]
  by (elim disjE exE conjE) (erule status_ok_payments, assumption, erule (2) status_ok_append)

lemma status_ok_callback: "status_ok w \<Longrightarrow> status_ok (callback c lost tag body w)"
  using callback_rows [of c lost tag body w]
  by (elim disjE exE conjE) (erule status_ok_payments, assumption, erule (2) status_ok_append)

lemma status_ok_refund_payment:
  assumes "status_ok w"
  shows "status_ok (snd (refund_payment k w))"
proof -
  from refund_payment_rows [of k w] show ?thesis
  proof (elim disjE exE)
    assume "payments (snd (refund_payment k w)) = payments w"
    then show ?thesis using assms by (rule status_ok_payments)
  next
    fix p
    assume "payments (snd (refund_payment k w)) =
              payments (flush_update p (\<lambda>q. q\<lparr>status := ''REFUNDED''\<rparr>) w)"
    then show ?thesis by (intro status_ok_flush_update [OF assms refl]) simp_all
  qed
qed

lemma status_ok_approve_payment:
  assumes "status_ok w"
  shows "status_ok (snd (approve_payment k w))"
proof -
  from approve_payment_rows [of k w] show ?thesis
  proof (elim disjE exE)
    assume "payments (snd (approve_payment k w)) = payments w"
    then show ?thesis using assms by (rule status_ok_payments)
  next
    fix p
    assume "payments (snd (approve_payment k w)) =
              payments (flush_update p (\<lambda>q. q\<lparr>status := ''SUCCESS'',
                transaction_ref := Some (tx_manual_ref k (clock w))\<rparr>) w)"
    then show ?thesis by (intro status_ok_flush_update [OF assms refl]) simp_all
  qed
qed

lemma status_ok_process_payment:
  assumes "status_ok w"
  shows "status_ok (process_payment_and_publish k student enrollment amt w)"
proof -
  have sl: "payments (sleep 1 w) = payments w" by simp
  from process_payment_rows [of k student enrollment amt w] show ?thesis
  proof (elim disjE exE)
    assume "payments (process_payment_and_publish k student enrollment amt w) = payments w"
    then show ?thesis using assms by (rule status_ok_payments)
  next
    fix p
    assume "payments (process_payment_and_publish k student enrollment amt w) =
              payments (flush_update p (\<lambda>q. q\<lparr>status := ''SUCCESS'',
                transaction_ref := Some (tx_ref k (clock w + 1))\<rparr>) (sleep 1 w))"
    then show ?thesis by (intro status_ok_flush_update [OF assms sl]) simp_all
  next
    fix p
    assume "payments (process_payment_and_publish k student enrollment amt w) =
              payments (flush_update p (\<lambda>q. q\<lparr>status := ''FAILED''\<rparr>) (sleep 1 w))"
    then show ?thesis by (intro status_ok_flush_update [OF assms sl]) simp_all
  qed
qed

section \<open>Refund\<close>

text \<open>
  Claim C5. For every payment that exists, whatever its status, \<open>refund_payment\<close>
  leaves it with status \<open>REFUNDED\<close>, answers with the refunded payment, and calls
  \<open>publish_event\<close> exactly once, after the commit, with routing key
  \<open>payment.events.refund\<close> and a \<open>PaymentRefunded\<close> event whose payload is the
  payment's \<open>id\<close>, \<open>enrollment_id\<close> and \<open>student_id\<close>. With the broker up this
  puts exactly that one message on the exchange; with the broker down the one attempt
  is logged and nothing is published.
\<close>

theorem refund_sets_refunded_and_publishes_once:
  assumes "db_up w" and "stored payment_id w = Some p"
  shows "map_option status (stored payment_id (snd (refund_payment payment_id w))) = Some ''REFUNDED''
    \<and> (\<exists>out. fst (refund_payment payment_id w) = Inr out \<and> out_status out = ''REFUNDED'')
    \<and> trace (snd (refund_payment payment_id w)) =
        trace w @ Commit #
          (if bus_up w
           then [ExchangeDeclare EXCHANGE ''topic'' True,
                 Published ''payment.events.refund''
                   (outbound_event ''PaymentRefunded'' (id_col p) (enrollment_id p) (student_id p))]
           else [Log ''Error publishing event:'']) @ [Log ''Refunded payment'']
    \<and> published (trace (snd (refund_payment payment_id w))) =
        published (trace w) @
          (if bus_up w
           then [(''payment.events.refund'',
                  outbound_event ''PaymentRefunded'' (id_col p) (enrollment_id p) (student_id p))]
           else [])"
proof -
  let ?f = "\<lambda>q. q\<lparr>status := ''REFUNDED''\<rparr>"
  have k: "id_col p = payment_id" using assms(2) by (rule stored_id)
  note r = refund_payment_found [OF assms]
  have st: "stored payment_id (snd (refund_payment payment_id w)) = Some (flushed p ?f (clock w))"
    using commit_refresh(3) [OF assms, of ?f] by (simp add: r)
  have tr: "trace (snd (refund_payment payment_id w)) =
        trace w @ Commit #
          (if bus_up w
           then [ExchangeDeclare EXCHANGE ''topic'' True,
                 Published ''payment.events.refund''
                   (outbound_event ''PaymentRefunded'' (id_col p) (enrollment_id p) (student_id p))]
           else [Log ''Error publishing event:'']) @ [Log ''Refunded payment'']"
    by (simp add: r publish_event_trace k)
  have out: "out_status (from_orm (flushed p ?f (clock w))) = ''REFUNDED''"
    by (simp add: from_orm_def)
  show ?thesis
    using st out tr by (simp add: r published_append)
qed

theorem refund_sets_refunded_and_publishes_once_witness:
  "db_up W1 \<and> stored 1 W1 = Some P1
   \<and> map_option status (stored 1 (snd (refund_payment 1 W1))) = Some ''REFUNDED''
   \<and> published (trace (snd (refund_payment 1 W1))) =
       [(''payment.events.refund'',
         JObj [(''type'', JStr ''PaymentRefunded''),
               (''payload'', JObj [(''payment_id'', JInt 1), (''enrollment_id'', JInt 42),
                                   (''student_id'', JStr ''S1'')])])]"
  using refund_sets_refunded_and_publishes_once [OF W1_facts(1) W1_facts(3)]
  by (simp add: W1_facts outbound_event_def P1_def)

section \<open>The frame of the mutating operations\<close>

text \<open>
  Claim C8. \<open>process_payment_and_publish\<close>, \<open>approve_payment\<close> and
  \<open>refund_payment\<close> leave the fields \<open>id\<close>, \<open>student_id\<close>, \<open>enrollment_id\<close>,
  \<open>amount\<close> and \<open>created_at\<close> of every row as they were, row by row and in every
  case (row found or not, database up or down): the only fields they write are
  \<open>status\<close>, \<open>transaction_ref\<close> and \<open>updated_at\<close>.
\<close>

theorem mutations_keep_frame:
  "map frame (payments (process_payment_and_publish k student enrollment amt w))
     = map frame (payments w)
   \<and> map frame (payments (snd (approve_payment k w))) = map frame (payments w)
   \<and> map frame (payments (snd (refund_payment k w))) = map frame (payments w)"
proof (intro conjI)
  show "map frame (payments (process_payment_and_publish k student enrollment amt w))
     = map frame (payments w)"
    using process_payment_rows [of k student enrollment amt w]
    by (auto simp: flush_update_frame simp del: One_nat_def)
  show "map frame (payments (snd (approve_payment k w))) = map frame (payments w)"
    using approve_payment_rows [of k w] by (auto simp: flush_update_frame)
  show "map frame (payments (snd (refund_payment k w))) = map frame (payments w)"
    using refund_payment_rows [of k w] by (auto simp: flush_update_frame)
qed

theorem mutations_keep_frame_witness:
  "map frame (payments (snd (refund_payment 1 W1))) = [(1, ''S1'', 42, Finite 100, 0)]
   \<and> map frame (payments (snd (approve_payment 1 W1))) = [(1, ''S1'', 42, Finite 100, 0)]
   \<and> map frame (payments (process_payment_and_publish 1 ''S1'' 42 (Finite 100) W1))
       = [(1, ''S1'', 42, Finite 100, 0)]"
  using mutations_keep_frame [of 1 "''S1''" 42 "Finite 100" W1]
  by (simp add: W1_def P1_def frame_def)

section \<open>Processing a payment that does not exist\<close>

text \<open>
  Claim C6. When no row has the given id, \<open>process_payment_and_publish\<close> returns
  to its caller without an error (it returns a world in every case), creates and
  changes no row, publishes nothing, and adds one log line to the trace: the
  not-found line when the lookup ran, the error line of the outer handler when the
  database is down or \<open>int(amount)\<close> raised before the lookup.
\<close>

theorem process_missing_payment_is_noop:
  assumes "stored payment_id w = None"
  shows "payments (process_payment_and_publish payment_id student enrollment amt w) = payments w
    \<and> next_id (process_payment_and_publish payment_id student enrollment amt w) = next_id w
    \<and> published (trace (process_payment_and_publish payment_id student enrollment amt w))
        = published (trace w)
    \<and> trace (process_payment_and_publish payment_id student enrollment amt w) =
        trace w @
          [Log (if db_up w \<and> (\<exists>r. amt = Finite r)
                then ''Payment not found in process_payment_and_publish:''
                else ''Error in process_payment_and_publish:'')]"
proof -
  have tr: "trace (process_payment_and_publish payment_id student enrollment amt w) =
        trace w @
          [Log (if db_up w \<and> (\<exists>r. amt = Finite r)
                then ''Payment not found in process_payment_and_publish:''
                else ''Error in process_payment_and_publish:'')]"
    using assms
    by (cases amt; cases "db_up w")
       (simp_all add: process_payment_and_publish_def process_payment_try_def py_int_def
          query_first_def Let_def del: One_nat_def)
  have rest: "payments (process_payment_and_publish payment_id student enrollment amt w) = payments w
    \<and> next_id (process_payment_and_publish payment_id student enrollment amt w) = next_id w"
    using assms
    by (cases amt; cases "db_up w")
       (simp_all add: process_payment_and_publish_def process_payment_try_def py_int_def
          query_first_def Let_def del: One_nat_def)
  show ?thesis using tr rest by (simp add: published_append)
qed

theorem process_missing_payment_is_noop_witness:
  "stored 7 W1 = None
   \<and> payments (process_payment_and_publish 7 ''S9'' 3 (Finite 100) W1) = [P1]
   \<and> published (trace (process_payment_and_publish 7 ''S9'' 3 (Finite 100) W1)) = []
   \<and> trace (process_payment_and_publish 7 ''S9'' 3 (Finite 100) W1)
       = [Log ''Payment not found in process_payment_and_publish:'']"
proof -
  have h: "stored 7 W1 = None" by (simp add: stored_def W1_def P1_def)
  show ?thesis
    using h process_missing_payment_is_noop [OF h, of "''S9''" 3 "Finite 100"]
    by (simp add: W1_def)
qed

section \<open>A failing publish\<close>

text \<open>
  Claim C4. \<open>publish_event\<close> returns to its caller in every world: it never touches
  the store, and what it adds to the trace is \<open>publish_effects\<close>, the error line alone
  when the broker is down. In \<open>refund_payment\<close>, \<open>approve_payment\<close> and
  \<open>process_payment_and_publish\<close> on a row that exists, the commit comes first in the
  trace and the publish attempt after it; whether or not the broker is up, the
  operation returns normally and the row keeps the new status: a failing publish rolls
  nothing back.
\<close>

theorem publish_failure_keeps_committed_status:
  assumes "db_up w" and "stored k w = Some p" and "py_int amt = Inr n"
  shows
   "payments (publish_event rk ev w) = payments w
    \<and> trace (publish_event rk ev w) = trace w @ publish_effects rk ev (bus_up w)
    \<and> (\<exists>out. fst (refund_payment k w) = Inr out)
    \<and> map_option status (stored k (snd (refund_payment k w))) = Some ''REFUNDED''
    \<and> trace (snd (refund_payment k w)) =
         trace w @ Commit #
           publish_effects ''payment.events.refund''
             (outbound_event ''PaymentRefunded'' k (enrollment_id p) (student_id p)) (bus_up w)
           @ [Log ''Refunded payment'']
    \<and> (\<exists>out. fst (approve_payment k w) = Inr out)
    \<and> map_option status (stored k (snd (approve_payment k w))) = Some ''SUCCESS''
    \<and> trace (snd (approve_payment k w)) =
         trace w @ Commit #
           publish_effects ''payment.events.confirmed''
             (outbound_event ''PaymentConfirmed'' k (enrollment_id p) (student_id p)) (bus_up w)
           @ [Log ''Approved payment and published PaymentConfirmed'']
    \<and> map_option status (stored k (process_payment_and_publish k student enrollment amt w)) =
         Some (if n mod 2 = 0 then ''SUCCESS'' else ''FAILED'')
    \<and> trace (process_payment_and_publish k student enrollment amt w) =
         trace w @ Commit #
           (if n mod 2 = 0
            then publish_effects ''payment.events.confirmed''
                   (outbound_event ''PaymentConfirmed'' k enrollment student) (bus_up w)
                 @ [Log ''Payment SUCCESS, published PaymentConfirmed.'']
            else publish_effects ''payment.events.failed''
                   (outbound_event ''PaymentFailed'' k enrollment student) (bus_up w)
                 @ [Log ''Payment FAILED, published PaymentFailed.''])"
proof -
  note a = assms(1,2)
  have pub: "payments (publish_event rk ev w) = payments w
    \<and> trace (publish_event rk ev w) = trace w @ publish_effects rk ev (bus_up w)"
    by (simp add: publish_event_effects)
  have ref: "(\<exists>out. fst (refund_payment k w) = Inr out)
    \<and> map_option status (stored k (snd (refund_payment k w))) = Some ''REFUNDED''"
    by (simp add: refund_payment_effects(1,2) [OF a])
  have app: "(\<exists>out. fst (approve_payment k w) = Inr out)
    \<and> map_option status (stored k (snd (approve_payment k w))) = Some ''SUCCESS''"
    by (simp add: approve_payment_effects(1,2) [OF a])
  have pro: "map_option status (stored k (process_payment_and_publish k student enrollment amt w)) =
         Some (if n mod 2 = 0 then ''SUCCESS'' else ''FAILED'')"
    by (cases "n mod 2 = 0")
       (simp_all add: process_payment_success(1) [OF assms] process_payment_failed(1) [OF assms]
          del: One_nat_def)
  have ptr: "trace (process_payment_and_publish k student enrollment amt w) =
         trace w @ Commit #
           (if n mod 2 = 0
            then publish_effects ''payment.events.confirmed''
                   (outbound_event ''PaymentConfirmed'' k enrollment student) (bus_up w)
                 @ [Log ''Payment SUCCESS, published PaymentConfirmed.'']
            else publish_effects ''payment.events.failed''
                   (outbound_event ''PaymentFailed'' k enrollment student) (bus_up w)
                 @ [Log ''Payment FAILED, published PaymentFailed.''])"
    by (cases "n mod 2 = 0")
       (simp_all add: process_payment_success(2) [OF assms] process_payment_failed(2) [OF assms])
  show ?thesis
    using pub ref app pro ptr refund_payment_effects(3) [OF a] approve_payment_effects(3) [OF a]
    by blast
qed

theorem publish_failure_keeps_committed_status_witness:
  "db_up W2 \<and> \<not> bus_up W2 \<and> stored 1 W2 = Some P1 \<and> py_int (Finite 100) = Inr 100
   \<and> map_option status (stored 1 (snd (refund_payment 1 W2))) = Some ''REFUNDED''
   \<and> trace (snd (refund_payment 1 W2)) =
        [Commit, Log ''Error publishing event:'', Log ''Refunded payment'']
   \<and> map_option status (stored 1 (snd (approve_payment 1 W2))) = Some ''SUCCESS''
   \<and> trace (snd (approve_payment 1 W2)) =
        [Commit, Log ''Error publishing event:'',
         Log ''Approved payment and published PaymentConfirmed'']
   \<and> map_option status (stored 1 (process_payment_and_publish 1 ''S1'' 42 (Finite 100) W2))
        = Some ''SUCCESS''
   \<and> trace (process_payment_and_publish 1 ''S1'' 42 (Finite 100) W2) =
        [Commit, Log ''Error publishing event:'',
         Log ''Payment SUCCESS, published PaymentConfirmed.'']"
  using publish_failure_keeps_committed_status
          [OF W2_facts(1) W2_facts(3) py_int_100, where student = "''S1''" and enrollment = 42]
  by (simp add: W2_facts publish_effects_def py_int_100)

section \<open>The simulated gateway outcome\<close>

text \<open>
  Claim C1, as stated, fails on its last part. A payment of 101 is created and approved
  by hand before its background task runs; the task then sets the status to \<open>FAILED\<close>
  and leaves the reference written by the approval: \<open>FAILED\<close> with a non-null
  \<open>transaction_ref\<close>.
\<close>

theorem process_failed_keeps_reference_counterexample:
  "db_up W_odd_approved
   \<and> map_option amount (stored 1 W_odd_approved) = Some (Finite 101)
   \<and> map_option status
        (stored 1 (process_payment_and_publish 1 ''S1'' 42 (Finite 101) W_odd_approved))
       = Some ''FAILED''
   \<and> map_option transaction_ref
        (stored 1 (process_payment_and_publish 1 ''S1'' 42 (Finite 101) W_odd_approved))
       = Some (Some ''tx-manual-1-0'')"
proof -
  have odd: "(101::int) mod 2 \<noteq> 0" by simp
  show ?thesis
    by (simp add: process_payment_failed(1)
             [OF W_odd_approved_facts(1) W_odd_approved_facts(3) py_int_101 odd]
          W_odd_approved_facts del: One_nat_def)
qed

text \<open>
  Claim C1, amended. For a stored payment whose amount is a finite \<open>a \<ge> 0\<close>, with the
  database up, \<open>process_payment_and_publish\<close> called with the payment's amount sets
  the status to \<open>SUCCESS\<close> when \<open>\<lfloor>a\<rfloor> mod 2 = 0\<close> and to \<open>FAILED\<close> otherwise; on
  \<open>SUCCESS\<close> it writes a fresh reference, on \<open>FAILED\<close> it leaves \<open>transaction_ref\<close>
  as it was. So for a payment whose \<open>transaction_ref\<close> was null before, it is
  non-null afterwards exactly when the outcome is \<open>SUCCESS\<close>.
\<close>

theorem process_outcome_by_parity:
  assumes "db_up w" and "stored k w = Some p" and "amount p = Finite a" and "0 \<le> a"
  shows
   "map_option status (stored k (process_payment_and_publish k student enrollment (amount p) w))
      = Some (if \<lfloor>a\<rfloor> mod 2 = 0 then ''SUCCESS'' else ''FAILED'')
    \<and> map_option transaction_ref
         (stored k (process_payment_and_publish k student enrollment (amount p) w))
      = Some (if \<lfloor>a\<rfloor> mod 2 = 0 then Some (tx_ref k (clock w + 1)) else transaction_ref p)
    \<and> (transaction_ref p = None \<longrightarrow>
         (\<exists>p'. stored k (process_payment_and_publish k student enrollment (amount p) w) = Some p'
            \<and> (transaction_ref p' \<noteq> None) = (status p' = ''SUCCESS'')))"
proof -
  have i: "py_int (amount p) = Inr \<lfloor>a\<rfloor>"
    using assms(3,4) by (simp add: py_int_nonneg)
  show ?thesis
  proof (cases "\<lfloor>a\<rfloor> mod 2 = 0")
    case True
    show ?thesis
      using True
      by (simp add: process_payment_success(1) [OF assms(1,2) i True] del: One_nat_def)
  next
    case False
    show ?thesis
      using False
      by (simp add: process_payment_failed(1) [OF assms(1,2) i False] del: One_nat_def)
  qed
qed

theorem process_outcome_by_parity_witness:
  "db_up W1 \<and> stored 1 W1 = Some P1 \<and> amount P1 = Finite 100 \<and> (0::real) \<le> 100
   \<and> transaction_ref P1 = None
   \<and> map_option status (stored 1 (process_payment_and_publish 1 ''S1'' 42 (Finite 100) W1))
       = Some ''SUCCESS''
   \<and> map_option transaction_ref
        (stored 1 (process_payment_and_publish 1 ''S1'' 42 (Finite 100) W1))
       = Some (Some ''tx-1-6'')"
proof -
  have a: "amount P1 = Finite 100" and t: "transaction_ref P1 = None"
    by (simp_all add: P1_def)
  have z: "(0::real) \<le> 100" by simp
  show ?thesis
    using process_outcome_by_parity [OF W1_facts(1) W1_facts(3) a z,
            where student = "''S1''" and enrollment = 42]
    by (simp add: W1_facts a t tx_ref_1_6)
qed

section \<open>The life of a transaction reference\<close>

text \<open>
  Claim C3, as stated, fails: \<open>approve_payment\<close> writes a new reference whatever the
  row holds. A payment of 100 is created and its background task confirms it with
  reference \<open>tx-1-1\<close>; an approval then replaces that reference by \<open>tx-manual-1-1\<close>.
\<close>

theorem approve_overwrites_reference_counterexample:
  "map_option status (stored 1 W_even_processed) = Some ''SUCCESS''
   \<and> map_option transaction_ref (stored 1 W_even_processed) = Some (Some ''tx-1-1'')
   \<and> map_option transaction_ref (stored 1 (snd (approve_payment 1 W_even_processed)))
       = Some (Some ''tx-manual-1-1'')"
  by (simp add: approve_payment_effects(1) [OF W_even_processed_facts(1) W_even_processed_stored]
        W_even_processed_stored W_even_processed_facts tx_manual_ref_1_1 del: One_nat_def)

text \<open>
  Claim C3, amended. Under \<open>process_payment_and_publish\<close>, \<open>approve_payment\<close> and
  \<open>refund_payment\<close> a \<open>transaction_ref\<close> that is set is never cleared, and the
  reference of a row changes only when the row's new status is \<open>SUCCESS\<close>
  (\<open>ref_step\<close>, for every row); \<open>refund_payment\<close> changes no reference at all. The
  reference is not written once only: \<open>approve_payment\<close> on a row that exists always
  stores the freshly built \<open>tx_manual_ref\<close>, also over a reference that was set.
\<close>

theorem transaction_ref_kept_or_overwritten:
  "list_all2 ref_step (payments w)
      (payments (process_payment_and_publish k student enrollment amt w))
   \<and> list_all2 ref_step (payments w) (payments (snd (approve_payment k w)))
   \<and> map transaction_ref (payments (snd (refund_payment k w))) = map transaction_ref (payments w)
   \<and> (db_up w \<and> stored k w = Some p \<longrightarrow>
        map_option transaction_ref (stored k (snd (approve_payment k w)))
          = Some (Some (tx_manual_ref k (clock w))))"
proof (intro conjI impI)
  have same: "list_all2 ref_step (payments w) (payments w)"
    by (simp add: list_all2_same ref_step_def)
  have r: "\<And>p f w'. payments w' = payments w \<Longrightarrow> (\<And>q. ref_step q q) \<Longrightarrow>
            (\<And>q. ref_step q ((f q)\<lparr>updated_at := Some (clock w')\<rparr>)) \<Longrightarrow>
            list_all2 ref_step (payments w) (payments (flush_update p f w'))"
    using flush_update_rel [of ref_step] by metis
  show "list_all2 ref_step (payments w)
      (payments (process_payment_and_publish k student enrollment amt w))"
    using process_payment_rows [of k student enrollment amt w] same
    by (auto intro!: r simp: ref_step_def simp del: One_nat_def)
  show "list_all2 ref_step (payments w) (payments (snd (approve_payment k w)))"
    using approve_payment_rows [of k w] same
    by (auto intro!: r simp: ref_step_def)
  show "map transaction_ref (payments (snd (refund_payment k w))) = map transaction_ref (payments w)"
    using refund_payment_rows [of k w] by (auto simp: flush_update_ref)
next
  assume "db_up w \<and> stored k w = Some p"
  then show "map_option transaction_ref (stored k (snd (approve_payment k w)))
          = Some (Some (tx_manual_ref k (clock w)))"
    by (simp add: approve_payment_effects(1))
qed

theorem transaction_ref_kept_or_overwritten_witness:
  "db_up W_even_processed
   \<and> map_option transaction_ref (stored 1 W_even_processed) = Some (Some ''tx-1-1'')
   \<and> map_option transaction_ref (stored 1 (snd (approve_payment 1 W_even_processed)))
       = Some (Some ''tx-manual-1-1'')
   \<and> map transaction_ref (payments (snd (refund_payment 1 W_even_processed)))
       = [Some ''tx-1-1'']"
  using transaction_ref_kept_or_overwritten
          [where w = W_even_processed and k = 1 and student = "''S1''" and enrollment = 42
             and amt = "Finite 100"
             and p = "\<lparr> id_col = 1, student_id = ''S1'', enrollment_id = 42,
                       amount = Finite 100, status = ''SUCCESS'',
                       transaction_ref = Some ''tx-1-1'', created_at = 0,
                       updated_at = Some 1 \<rparr>"]
  by (simp add: W_even_processed_stored W_even_processed_facts tx_manual_ref_1_1
        del: One_nat_def)

section \<open>The queue the consumer declares\<close>

text \<open>
  Claim C9, as stated, fails: with the queue name \<open>payment_queue\<close> (the default of
  \<open>startup\<close>) the consumer declares the queue with \<open>durable=False\<close>.
\<close>

theorem named_queue_not_durable_counterexample:
  "trace (snd (consumer_bind ''payment_queue'' ''amq.gen-1'' W1)) =
     [ExchangeDeclare ''ums_events'' ''topic'' True,
      QueueDeclare ''payment_queue'' False False,
      QueueBind ''ums_events'' ''payment_queue'' ''enrollment.events.#'',
      Log ''Payment consumer bound queue'',
      Qos 1,
      Consume ''payment_queue'' False,
      Log ''Payment consumer starting to consume on queue:'']"
  by (simp add: consumer_bind_def W1_facts EXCHANGE_def Let_def)

text \<open>
  Claim C9, amended. With the broker up, a non-empty queue name is declared as a queue
  of that name that is neither durable nor exclusive, and bound and consumed under that
  name; only with the empty queue name the consumer declares an anonymous exclusive
  queue (not durable either) and binds and consumes the name the broker gave it.
\<close>

theorem consumer_declares_queue:
  assumes "bus_up w"
  shows "fst (consumer_bind queue_name server_name w) =
           Inr (if queue_name \<noteq> [] then queue_name else server_name)
    \<and> trace (snd (consumer_bind queue_name server_name w)) =
        trace w @
          [ExchangeDeclare EXCHANGE ''topic'' True,
           (if queue_name \<noteq> [] then QueueDeclare queue_name False False
            else QueueDeclare [] False True),
           QueueBind EXCHANGE (if queue_name \<noteq> [] then queue_name else server_name)
             ''enrollment.events.#'',
           Log ''Payment consumer bound queue'',
           Qos 1,
           Consume (if queue_name \<noteq> [] then queue_name else server_name) False,
           Log ''Payment consumer starting to consume on queue:'']"
  using assms by (simp add: consumer_bind_def Let_def)

theorem consumer_declares_queue_witness:
  "bus_up W1
   \<and> fst (consumer_bind ''payment_queue'' ''amq.gen-1'' W1) = Inr ''payment_queue''
   \<and> fst (consumer_bind [] ''amq.gen-1'' W1) = Inr ''amq.gen-1''
   \<and> trace (snd (consumer_bind [] ''amq.gen-1'' W1)) =
     [ExchangeDeclare ''ums_events'' ''topic'' True,
      QueueDeclare [] False True,
      QueueBind ''ums_events'' ''amq.gen-1'' ''enrollment.events.#'',
      Log ''Payment consumer bound queue'',
      Qos 1,
      Consume ''amq.gen-1'' False,
      Log ''Payment consumer starting to consume on queue:'']"
  using consumer_declares_queue [OF W1_facts(2), of "''payment_queue''" "''amq.gen-1''"]
    consumer_declares_queue [OF W1_facts(2), of "[]" "''amq.gen-1''"]
  by (simp add: W1_facts EXCHANGE_def)

section \<open>Inbound events\<close>




text \<open>
  Claim C10. What \<open>_process_registration_event\<close> and the callback do with an event
  depends on the event's \<open>payload\<close> entry alone: two events with the same
  \<open>payload\<close> entry give the same result, so a \<open>type\<close> entry changes nothing; an
  event without a \<open>payload\<close> key is handled as one with the empty payload, which
  every store that agrees with models.py refuses; and with the database up an event of
  any \<open>type\<close> with a valid payload (as in C2) adds the pending row.
\<close>

theorem event_type_is_ignored:
  "(map_of b1 ''payload'' = map_of b2 ''payload'' \<longrightarrow>
      process_registration_event c lost (JObj b1) w
        = process_registration_event c lost (JObj b2) w
      \<and> callback c lost tag (Some (JObj b1)) w = callback c lost tag (Some (JObj b2)) w)
   \<and> process_registration_event c lost (JObj ((''type'', t) # b)) w
       = process_registration_event c lost (JObj b) w
   \<and> (map_of b ''payload'' = None \<longrightarrow>
        process_registration_event c lost (JObj b) w
          = process_registration_event c lost (JObj [(''payload'', JObj [])]) w
        \<and> (store_ok c \<longrightarrow> payments (callback c lost tag (Some (JObj b)) w) = payments w))
   \<and> (store_ok c \<and> db_up w
        \<and> map_of payload ''enrollment_id'' = Some (JInt n) \<and> int32 n
        \<and> map_of payload ''student_id'' = Some (JStr s) \<and> varchar64 s
        \<and> payload_amount payload = Some a \<longrightarrow>
        payments (callback c lost tag
                    (Some (JObj [(''type'', t), (''payload'', JObj payload)])) w)
          = payments w @ [pending_payment s n a w])"
proof (intro conjI impI)
  assume eq: "map_of b1 ''payload'' = map_of b2 ''payload''"
  then have p: "\<And>w'. process_registration_event c lost (JObj b1) w'
                     = process_registration_event c lost (JObj b2) w'"
    by (simp add: process_registration_event_def dict_get_default_def)
  show "process_registration_event c lost (JObj b1) w
        = process_registration_event c lost (JObj b2) w"
    by (rule p)
  show "callback c lost tag (Some (JObj b1)) w = callback c lost tag (Some (JObj b2)) w"
    by (simp add: callback_def callback_process_def json_loads_def p)
next
  show "process_registration_event c lost (JObj ((''type'', t) # b)) w
       = process_registration_event c lost (JObj b) w"
    by (simp add: process_registration_event_def dict_get_default_def)
next
  assume "map_of b ''payload'' = None"
  then show "process_registration_event c lost (JObj b) w
          = process_registration_event c lost (JObj [(''payload'', JObj [])]) w"
    by (simp add: process_registration_event_def dict_get_default_def)
next
  assume "map_of b ''payload'' = None" and "store_ok c"
  then show "payments (callback c lost tag (Some (JObj b)) w) = payments w"
    by (simp add: callback_no_payload)
next
  assume a: "store_ok c \<and> db_up w
        \<and> map_of payload ''enrollment_id'' = Some (JInt n) \<and> int32 n
        \<and> map_of payload ''student_id'' = Some (JStr s) \<and> varchar64 s
        \<and> payload_amount payload = Some a"
  have m: "map_of [(''type'', t), (''payload'', JObj payload)] ''payload'' = Some (JObj payload)"
    by simp
  from a show "payments (callback c lost tag
                    (Some (JObj [(''type'', t), (''payload'', JObj payload)])) w)
          = payments w @ [pending_payment s n a w]"
    by (intro callback_valid(1) [OF _ _ m]) simp_all
qed

theorem event_type_is_ignored_witness:
  "store_ok strict_store \<and> db_up W1 \<and> int32 7 \<and> varchar64 ''S2''
   \<and> payments (callback strict_store False 3 (Some (JObj [(''type'', JStr ''SomethingElse''),
        (''payload'', JObj [(''enrollment_id'', JInt 7), (''student_id'', JStr ''S2'')])])) W1)
      = [P1, \<lparr> id_col = 2, student_id = ''S2'', enrollment_id = 7, amount = Finite 0,
               status = ''PENDING'', transaction_ref = None, created_at = 5,
               updated_at = None \<rparr>]
   \<and> map_of [(''type'', JStr ''RegistrationPendingPayment'')] ''payload'' = None
   \<and> process_registration_event strict_store False
        (JObj [(''type'', JStr ''RegistrationPendingPayment'')]) W1
      = process_registration_event strict_store False (JObj [(''payload'', JObj [])]) W1
   \<and> payments (callback strict_store False 3
        (Some (JObj [(''type'', JStr ''RegistrationPendingPayment'')])) W1) = [P1]
   \<and> map_of E1 ''payload'' = map_of (tl E1) ''payload''
   \<and> callback strict_store False 3 (Some (JObj E1)) W1
      = callback strict_store False 3 (Some (JObj (tl E1))) W1"
  using event_type_is_ignored
          [where c = strict_store and lost = False and w = W1 and tag = 3 and n = 7
             and s = "''S2''" and a = "Finite 0"
             and payload = "[(''enrollment_id'', JInt 7), (''student_id'', JStr ''S2'')]"
             and t = "JStr ''SomethingElse''"
             and b = "[(''type'', JStr ''RegistrationPendingPayment'')]"
             and ?b1.0 = E1 and ?b2.0 = "tl E1"]
  by (simp add: strict_store_ok sample_bounds W1_facts E1_facts pending_payment_def)
     (simp add: W1_def E1_def)

section \<open>Listing payments\<close>

text \<open>
  Claim C7, as stated, fails for a filter that is supplied as the empty string
  (\<open>GET /payments?status=\<close>): \<open>if status:\<close> skips the filter, and the pending
  payment is returned although the empty string matches no status; in the same way an
  empty \<open>student_id\<close> filter returns the payment of student \<open>S1\<close>.
\<close>

theorem list_payments_empty_filter_counterexample:
  "list_payments (Some []) None W1 = Inr [from_orm P1]
   \<and> status P1 = ''PENDING'' \<and> upper [] \<noteq> upper ''PENDING''
   \<and> list_payments None (Some []) W1 = Inr [from_orm P1]
   \<and> student_id P1 = ''S1'' \<and> [] \<noteq> ''S1''"
  by (simp add: list_payments_def filter_status_def filter_student_def W1_def upper_def)
     (simp add: P1_def)

text \<open>
  Claim C7, amended. With the database up and every stored status one of the four
  values the code writes, \<open>list_payments\<close> returns the serialised rows newest-created
  first; the rows are exactly those that pass both filters, where a non-empty status
  filter passes the rows whose status equals it without regard to case (so
  \<open>success\<close> gives exactly the \<open>SUCCESS\<close> rows), a non-empty student filter passes the
  rows whose \<open>student_id\<close> equals it, and a filter that is absent or empty passes every
  row.
\<close>

theorem list_payments_filtered_newest_first:
  assumes "db_up w" and "status_ok w"
  shows "(\<exists>rows. list_payments status_q student_q w = Inr (map from_orm rows)
            \<and> sorted_wrt (\<lambda>a b. created_at b \<le> created_at a) rows
            \<and> mset rows =
                mset (filter (\<lambda>p. status_matches status_q p \<and> student_matches student_q p)
                        (payments w)))
    \<and> (\<exists>rows. list_payments (Some ''success'') None w = Inr (map from_orm rows)
            \<and> mset rows = mset (filter (\<lambda>p. status p = ''SUCCESS'') (payments w)))"
proof (intro conjI)
  let ?q = "filter_student student_q (filter_status status_q (payments w))"
  let ?rows = "sort_key (\<lambda>p. - int (created_at p)) ?q"
  have l: "list_payments status_q student_q w = Inr (map from_orm ?rows)"
    using assms(1) by (simp add: list_payments_def)
  have m: "mset ?rows =
             mset (filter (\<lambda>p. status_matches status_q p \<and> student_matches student_q p)
                        (payments w))"
    by (simp add: filter_student_matches filter_status_matches [OF assms(2)] conj_commute)
  show "\<exists>rows. list_payments status_q student_q w = Inr (map from_orm rows)
            \<and> sorted_wrt (\<lambda>a b. created_at b \<le> created_at a) rows
            \<and> mset rows =
                mset (filter (\<lambda>p. status_matches status_q p \<and> student_matches student_q p)
                        (payments w))"
    using l m sorted_desc_sort_key by blast
  let ?r2 = "sort_key (\<lambda>p. - int (created_at p)) (filter (\<lambda>p. status p = ''SUCCESS'') (payments w))"
  have "list_payments (Some ''success'') None w = Inr (map from_orm ?r2)"
    using assms(1)
    by (simp add: list_payments_def filter_status_def filter_student_def upper_statuses)
  moreover have "mset ?r2 = mset (filter (\<lambda>p. status p = ''SUCCESS'') (payments w))"
    by simp
  ultimately show "\<exists>rows. list_payments (Some ''success'') None w = Inr (map from_orm rows)
            \<and> mset rows = mset (filter (\<lambda>p. status p = ''SUCCESS'') (payments w))"
    by blast
qed


theorem list_payments_filtered_newest_first_witness:
  "db_up W3 \<and> status_ok W3
   \<and> map out_id (projr (list_payments (Some ''success'') None W3)) = [3, 1]
   \<and> map out_status (projr (list_payments (Some ''success'') None W3))
       = [''SUCCESS'', ''SUCCESS'']
   \<and> map out_id (projr (list_payments (Some ''SuCcEsS'') (Some ''S1'') W3)) = [3, 1]
   \<and> map out_id (projr (list_payments None (Some ''S2'') W3)) = [2]
   \<and> map out_id (projr (list_payments None None W3)) = [3, 2, 1]"
  using list_payments_filtered_newest_first [OF W3_facts, of "Some ''SuCcEsS''" "Some ''S1''"]
  by (simp add: W3_facts)
     (simp add: list_payments_def filter_status_def filter_student_def W3_def
        upper_statuses upper_mixed from_orm_def)

end
